theory Spec2Isabelle
  imports Main "HOL-Library.Word"
begin

section \<open>Pixiecore's command line: package cli (pixiecore/cli/cli.go)\<close>

subsection \<open>Values of the collaborating packages\<close>

text \<open>
  Modelled from the spec: the type pixiecore.Firmware and its constants are declared in
  package pixiecore, outside cli.go. The spec calls it a closed enumeration of the three
  recognized firmware types; cli.go names them FirmwareX86PC (BIOS/UNDI), FirmwareEFI32
  and FirmwareEFI64.
\<close>

datatype Firmware = FirmwareX86PC | FirmwareEFI32 | FirmwareEFI64

text \<open>
  The contents of a byte array. A Go \<^verbatim>\<open>[]byte\<close> in a map of firmware binaries is a
  \<open>slice\<close>: a reference to its array in the store below, so that two slices with the
  same reference share their bytes, as the copy of a slice value does in Go. (cli.go
  takes no part of a slice and tests no slice against nil; a nil slice is an empty one
  here.) A Go map value is a \<open>mapref\<close>: nil (\<open>None\<close>) or a reference to a map object of
  the store.
\<close>

type_synonym bytes = "8 word list"

type_synonym slice = nat

type_synonym mapref = "nat option"

text \<open>
  The two log functions \<^verbatim>\<open>logWithStdFmt\<close> and \<^verbatim>\<open>logWithStdLog\<close> are declared in another
  file of the package. cli.go only stores them in fields, so they are two constants here;
  \<^verbatim>\<open>logWithStdLog\<close> is the one chosen by \<^verbatim>\<open>--log-timestamps\<close>.
\<close>

datatype logger = logWithStdFmt | logWithStdLog

text \<open>
  \<^verbatim>\<open>pixiecore.Server\<close>, with the fields that \<^verbatim>\<open>serverFromFlags\<close> assigns. \<open>Ipxe\<close> is a Go
  map. \<open>Debug\<close> is a function value that may be nil (\<open>None\<close>); \<open>Address\<close> is a string,
  empty when unset.
\<close>

record Server =
  Ipxe :: mapref
  Log :: logger
  Debug :: "logger option"
  HTTPPort :: int
  Address :: string

subsection \<open>Package net: IP addresses\<close>

text \<open>
  A \<^verbatim>\<open>net.IP\<close> is a byte slice, nil (\<open>None\<close>) or of 4 or 16 bytes; nothing shares or
  changes its bytes, so it is kept by its contents. \<^verbatim>\<open>To4\<close> returns the 4-byte form of
  an IPv4 address (given in 4 bytes, or in 16 bytes behind the prefix of ten zero bytes
  and two 0xff bytes) and nil for every other value.
\<close>

type_synonym IP = "bytes option"

definition isZeros :: "bytes \<Rightarrow> bool" where
  "isZeros p = list_all (\<lambda>b. b = 0) p"

definition To4 :: "IP \<Rightarrow> IP" where
  "To4 ip =
     (case ip of
        None \<Rightarrow> None
      | Some p \<Rightarrow>
          if length p = 4 then Some p
          else if length p = 16 \<and> isZeros (take 10 p) \<and> p ! 10 = 0xff \<and> p ! 11 = 0xff
          then Some (drop 12 p)
          else None)"

text \<open>\<^verbatim>\<open>net.IPv4(a, b, c, d)\<close> builds the 16-byte form; \<^verbatim>\<open>net.IPv4zero\<close> is 0.0.0.0.\<close>

definition IPv4 :: "8 word \<Rightarrow> 8 word \<Rightarrow> 8 word \<Rightarrow> 8 word \<Rightarrow> IP" where
  "IPv4 a b c d = Some [0, 0, 0, 0, 0, 0, 0, 0, 0, 0, 0xff, 0xff, a, b, c, d]"

definition IPv4zero :: IP where
  "IPv4zero = IPv4 0 0 0 0"

function uitoa :: "nat \<Rightarrow> string" where
  "uitoa val =
     (if val < 10 then [''0123456789'' ! val]
      else uitoa (val div 10) @ [''0123456789'' ! (val mod 10)])"
  by pat_completeness auto
termination
  by (relation "measure id") auto

declare uitoa.simps [simp del]

text \<open>
  \<^verbatim>\<open>IP.String\<close>: \<^verbatim>\<open><nil>\<close> for an empty slice and dotted decimal for an IPv4 address.
  The text of the other addresses (IPv6 notation) is not modelled: \<^verbatim>\<open>serverFromFlags\<close>
  has ended the process before it would print one, and the model writes \<^verbatim>\<open>?\<close> there.
\<close>

definition IP_String :: "IP \<Rightarrow> string" where
  "IP_String ip =
     (case ip of
        None \<Rightarrow> ''<nil>''
      | Some p \<Rightarrow>
          if p = [] then ''<nil>''
          else (case To4 ip of
                  Some p4 \<Rightarrow>
                    uitoa (unat (p4 ! 0)) @ ''.'' @ uitoa (unat (p4 ! 1)) @ ''.'' @
                    uitoa (unat (p4 ! 2)) @ ''.'' @ uitoa (unat (p4 ! 3))
                | None \<Rightarrow> ''?''))"

subsection \<open>Errors, output and the state of the process\<close>

text \<open>
  The values of Go's \<^verbatim>\<open>error\<close> that reach cli.go: the errors of pflag's typed accessors
  (no flag of that name; a flag of another type, with the type asked for and the type
  found; a stored address whose text is no IP literal), and any other error by its text
  (the operating system's for a failed \<^verbatim>\<open>ioutil.ReadFile\<close>, cobra's for a command that
  failed).
\<close>

datatype error =
  NotDefined string | TypeMismatch string string | InvalidIP IP | ErrorText string

text \<open>An argument of \<^verbatim>\<open>fmt.Printf\<close>.\<close>

datatype arg = ArgString string | ArgError error

text \<open>
  The state that cli.go reads and writes:
  \<^item> \<open>arrays\<close>: the store of byte arrays, a slice being an index into it;
  \<^item> \<open>maps\<close>: the store of Go map objects, a map reference being an index into it;
  \<^item> \<open>Ipxe_var\<close>: the package variable \<^verbatim>\<open>Ipxe\<close>, a Go map;
  \<^item> \<open>files\<close>: what \<^verbatim>\<open>ioutil.ReadFile\<close> returns for a path, an error or the whole contents;
  \<^item> \<open>environ\<close>: the environment variables of the process;
  \<^item> \<open>envPrefix\<close>, \<open>automaticEnvApplied\<close>: the two settings of viper that \<^verbatim>\<open>initConfig\<close>
    makes;
  \<^item> \<open>stdout\<close>: the print calls so far, each kept as its format and its arguments (the
    text is not rendered; \<^verbatim>\<open>fmt.Println(x)\<close> is kept as the format \<^verbatim>\<open>%v\<close> and a newline).
\<close>

record state =
  arrays :: "bytes list"
  maps :: "(Firmware \<rightharpoonup> slice) list"
  Ipxe_var :: mapref
  files :: "string \<Rightarrow> error + bytes"
  environ :: "string \<rightharpoonup> string"
  envPrefix :: string
  automaticEnvApplied :: bool
  stdout :: "(string \<times> arg list) list"

text \<open>
  A call either ends the process (\<open>Inl\<close> of the exit status and the final state) or
  returns a value. \<^verbatim>\<open>os.Exit(n)\<close> ends it with status \<open>n\<close>; a panic of the Go runtime
  that nothing recovers ends it with status 2 (its message goes to the standard error
  stream, which is not kept).
\<close>

type_synonym 'a result = "(int \<times> state) + 'a"

definition panic :: "state \<Rightarrow> 'a result" where
  "panic s = Inl (2, s)"

definition exit_status :: "'a result \<Rightarrow> int option" where
  "exit_status r = (case r of Inl (code, s) \<Rightarrow> Some code | Inr v \<Rightarrow> None)"

definition printed :: "'a result \<Rightarrow> (string \<times> arg list) list" where
  "printed r = (case r of Inl (code, s) \<Rightarrow> stdout s | Inr v \<Rightarrow> [])"

subsection \<open>Go maps and byte slices in the store\<close>

text \<open>
  \<^verbatim>\<open>map[pixiecore.Firmware][]byte{}\<close> allocates a new, empty map object and gives its
  reference, which is never nil.
\<close>

definition newMap :: "state \<Rightarrow> mapref \<times> state" where
  "newMap s = (Some (length (maps s)), s\<lparr>maps := maps s @ [Map.empty]\<rparr>)"

text \<open>
  The entries of a map. A nil map has none. (A reference beyond the store is no map of
  a Go program; it has no entries either.)
\<close>

definition mapContents :: "state \<Rightarrow> mapref \<Rightarrow> (Firmware \<rightharpoonup> slice)" where
  "mapContents s m =
     (case m of
        None \<Rightarrow> Map.empty
      | Some r \<Rightarrow> if r < length (maps s) then maps s ! r else Map.empty)"

text \<open>
  \<^verbatim>\<open>m[k] = v\<close>: the entry is stored in the map object that \<open>m\<close> refers to; on a nil map
  the Go runtime panics (assignment to entry in nil map).
\<close>

definition mapStore :: "state \<Rightarrow> mapref \<Rightarrow> Firmware \<Rightarrow> slice \<Rightarrow> state result" where
  "mapStore s m k v =
     (case m of
        None \<Rightarrow> panic s
      | Some r \<Rightarrow>
          if r < length (maps s) then Inr (s\<lparr>maps := (maps s)[r := (maps s ! r)(k \<mapsto> v)]\<rparr>)
          else panic s)"

text \<open>
  The entries that \<^verbatim>\<open>range\<close> yields for a map: every key once, with its value. Go leaves
  the order open; the model takes the order of the constants.
\<close>

definition entries :: "(Firmware \<rightharpoonup> slice) \<Rightarrow> (Firmware \<times> slice) list" where
  "entries m =
     List.map_filter (\<lambda>k. map_option (Pair k) (m k)) [FirmwareX86PC, FirmwareEFI32, FirmwareEFI64]"

text \<open>A new byte array with the given contents, as \<^verbatim>\<open>ioutil.ReadFile\<close> makes one.\<close>

definition newArray :: "state \<Rightarrow> bytes \<Rightarrow> slice \<times> state" where
  "newArray s bs = (length (arrays s), s\<lparr>arrays := arrays s @ [bs]\<rparr>)"

text \<open>
  \<^verbatim>\<open>sl[i] = b\<close>, a change of one byte in place; out of range the Go runtime panics.
\<close>

definition sliceStore :: "state \<Rightarrow> slice \<Rightarrow> nat \<Rightarrow> 8 word \<Rightarrow> state result" where
  "sliceStore s sl i b =
     (if sl < length (arrays s) \<and> i < length (arrays s ! sl)
      then Inr (s\<lparr>arrays := (arrays s)[sl := (arrays s ! sl)[i := b]]\<rparr>)
      else panic s)"

text \<open>
  The binaries that a map holds, by their bytes: what a reader of the map finds for a
  firmware type. (A slice beyond the store is no slice of a Go program and counts as
  no binary.)
\<close>

definition binaries :: "state \<Rightarrow> mapref \<Rightarrow> (Firmware \<rightharpoonup> bytes)" where
  "binaries s m fw =
     (case mapContents s m fw of
        None \<Rightarrow> None
      | Some sl \<Rightarrow> if sl < length (arrays s) then Some (arrays s ! sl) else None)"

subsection \<open>Package pflag: the flags of a command\<close>

text \<open>
  pflag is a library outside the repository. A flag set is modelled by the typed value
  that each of its flags holds once the command line is decoded: the default given at
  the flag's declaration, replaced by the decoded value when the flag is on the command
  line. The typed accessors return the value of the named flag, or an error when no such
  flag is declared or when it is of another type. They read the flag set and nothing
  else: neither the environment nor viper.
\<close>

datatype Value = boolValue bool | ipValue IP | intValue int | stringValue string

type_synonym FlagSet = "string \<rightharpoonup> Value"

fun Type :: "Value \<Rightarrow> string" where
  "Type (boolValue b) = ''bool''"
| "Type (ipValue ip) = ''ip''"
| "Type (intValue i) = ''int''"
| "Type (stringValue s) = ''string''"

definition GetBool :: "FlagSet \<Rightarrow> string \<Rightarrow> error + bool" where
  "GetBool f name =
     (case f name of
        None \<Rightarrow> Inl (NotDefined name)
      | Some (boolValue b) \<Rightarrow> Inr b
      | Some v \<Rightarrow> Inl (TypeMismatch ''bool'' (Type v)))"

text \<open>
  \<^verbatim>\<open>GetIP\<close> does not hand out the stored address: it takes its text (\<^verbatim>\<open>IP.String\<close>) and
  parses the text again (\<^verbatim>\<open>net.ParseIP\<close>), with an error when the text is no IP literal.
  The text of a nil or empty address is \<^verbatim>\<open><nil>\<close> and the text of an address of another
  length than 4 or 16 starts with \<^verbatim>\<open>?\<close>: neither parses. The text of an IPv4 address,
  in 4 or in 16 bytes, is dotted decimal and parses to the 16-byte form; the text of
  any other 16-byte address parses to the same 16 bytes. So a result is never nil and
  has 16 bytes.
\<close>

definition reparseIP :: "IP \<Rightarrow> error + IP" where
  "reparseIP ip =
     (case ip of
        None \<Rightarrow> Inl (InvalidIP ip)
      | Some p \<Rightarrow>
          if length p = 4 then Inr (IPv4 (p ! 0) (p ! 1) (p ! 2) (p ! 3))
          else if length p = 16 then Inr (Some p)
          else Inl (InvalidIP ip))"

definition GetIP :: "FlagSet \<Rightarrow> string \<Rightarrow> error + IP" where
  "GetIP f name =
     (case f name of
        None \<Rightarrow> Inl (NotDefined name)
      | Some (ipValue ip) \<Rightarrow> reparseIP ip
      | Some v \<Rightarrow> Inl (TypeMismatch ''ip'' (Type v)))"

definition GetInt :: "FlagSet \<Rightarrow> string \<Rightarrow> error + int" where
  "GetInt f name =
     (case f name of
        None \<Rightarrow> Inl (NotDefined name)
      | Some (intValue i) \<Rightarrow> Inr i
      | Some v \<Rightarrow> Inl (TypeMismatch ''int'' (Type v)))"

definition GetString :: "FlagSet \<Rightarrow> string \<Rightarrow> error + string" where
  "GetString f name =
     (case f name of
        None \<Rightarrow> Inl (NotDefined name)
      | Some (stringValue s) \<Rightarrow> Inr s
      | Some v \<Rightarrow> Inl (TypeMismatch ''string'' (Type v)))"

text \<open>
  The effect of a flag given on the command line (\<^verbatim>\<open>--port 9000\<close>): its decoded value
  replaces the one the flag held.
\<close>

definition setFlag :: "FlagSet \<Rightarrow> string \<Rightarrow> Value \<Rightarrow> FlagSet" where
  "setFlag f name v = f(name \<mapsto> v)"

subsection \<open>The functions of cli.go\<close>

text \<open>
  \<^verbatim>\<open>initConfig\<close> sets viper's environment prefix and switches its automatic lookup of
  environment variables on (its comment: read in environment variables that match).
  What viper then finds is for those who ask viper for a value; nothing in cli.go does.
\<close>

definition initConfig :: "state \<Rightarrow> state" where
  "initConfig s = s\<lparr>envPrefix := ''pixiecore'', automaticEnvApplied := True\<rparr>"

text \<open>\<^verbatim>\<open>fatalf\<close> prints the message with a newline and exits with status 1.\<close>

definition fatalf :: "state \<Rightarrow> string \<Rightarrow> arg list \<Rightarrow> 'a result" where
  "fatalf s msg args = Inl (1, s\<lparr>stdout := stdout s @ [(msg @ [CHR 0x0A], args)]\<rparr>)"

definition todo :: "state \<Rightarrow> string \<Rightarrow> arg list \<Rightarrow> 'a result" where
  "todo s msg args = fatalf s (''TODO: '' @ msg) args"

text \<open>
  \<^verbatim>\<open>serverConfigFlags\<close> declares the seven flags of a server command with their
  defaults. (The one-letter forms belong to the decoding of the command line.)
\<close>

definition serverConfigFlags :: "FlagSet \<Rightarrow> FlagSet" where
  "serverConfigFlags f =
     f(''debug'' \<mapsto> boolValue False,
       ''log-timestamps'' \<mapsto> boolValue False,
       ''listen-addr'' \<mapsto> ipValue IPv4zero,
       ''port'' \<mapsto> intValue 80,
       ''ipxe-bios'' \<mapsto> stringValue '''',
       ''ipxe-efi32'' \<mapsto> stringValue '''',
       ''ipxe-efi64'' \<mapsto> stringValue '''')"

text \<open>
  \<^verbatim>\<open>mustFile\<close> returns the slice that \<^verbatim>\<open>ioutil.ReadFile\<close> made, a new array with the
  contents of the file, or ends the process.
\<close>

definition mustFile :: "state \<Rightarrow> string \<Rightarrow> (slice \<times> state) result" where
  "mustFile s path =
     (case files s path of
        Inl err \<Rightarrow> fatalf s ''couldn't read file %q: %s'' [ArgString path, ArgError err]
      | Inr bs \<Rightarrow> Inr (newArray s bs))"

text \<open>
  The loop \<^verbatim>\<open>for fwtype, bs := range Ipxe { ret.Ipxe[fwtype] = bs }\<close>, over the entries
  that \<^verbatim>\<open>range\<close> yields, storing into the map \<open>m\<close>. What is stored is the slice, not a copy
  of its bytes.
\<close>

fun rangeCopy :: "(Firmware \<times> slice) list \<Rightarrow> state \<Rightarrow> mapref \<Rightarrow> state result" where
  "rangeCopy [] s m = Inr s"
| "rangeCopy ((fwtype, bs) # rest) s m =
     (case mapStore s m fwtype bs of
        Inl e \<Rightarrow> Inl e
      | Inr s' \<Rightarrow> rangeCopy rest s' m)"

text \<open>
  The statement \<^verbatim>\<open>if path != "" { ret.Ipxe[fw] = mustFile(path) }\<close>, which
  \<^verbatim>\<open>serverFromFlags\<close> has once for each firmware flag.
\<close>

definition storeFile :: "state \<Rightarrow> mapref \<Rightarrow> Firmware \<Rightarrow> string \<Rightarrow> state result" where
  "storeFile s m fw path =
     (if path \<noteq> '''' then
        (case mustFile s path of
           Inl e \<Rightarrow> Inl e
         | Inr (bs, s') \<Rightarrow> mapStore s' m fw bs)
      else Inr s)"

definition serverFromFlags :: "state \<Rightarrow> FlagSet \<Rightarrow> (Server \<times> state) result" where
  "serverFromFlags s flags =
     (case GetBool flags ''debug'' of
        Inl err \<Rightarrow> fatalf s ''Error reading flag: %s'' [ArgError err]
      | Inr debug \<Rightarrow>
     (case GetBool flags ''log-timestamps'' of
        Inl err \<Rightarrow> fatalf s ''Error reading flag: %s'' [ArgError err]
      | Inr timestamps \<Rightarrow>
     (case GetIP flags ''listen-addr'' of
        Inl err \<Rightarrow> fatalf s ''Error reading flag: %s'' [ArgError err]
      | Inr addr \<Rightarrow>
     (case GetInt flags ''port'' of
        Inl err \<Rightarrow> fatalf s ''Error reading flag: %s'' [ArgError err]
      | Inr httpPort \<Rightarrow>
     (case GetString flags ''ipxe-bios'' of
        Inl err \<Rightarrow> fatalf s ''Error reading flag: %s'' [ArgError err]
      | Inr ipxeBios \<Rightarrow>
     (case GetString flags ''ipxe-efi32'' of
        Inl err \<Rightarrow> fatalf s ''Error reading flag: %s'' [ArgError err]
      | Inr ipxeEFI32 \<Rightarrow>
     (case GetString flags ''ipxe-efi64'' of
        Inl err \<Rightarrow> fatalf s ''Error reading flag: %s'' [ArgError err]
      | Inr ipxeEFI64 \<Rightarrow>
        if addr \<noteq> None \<and> To4 addr = None then fatalf s ''Listen address must be IPv4'' []
        else if httpPort \<le> 0 then fatalf s ''HTTP port must be >0'' []
        else
          (case newMap s of (m, s1) \<Rightarrow>
             let ret = \<lparr>Ipxe = m, Log = logWithStdFmt, Debug = None,
                        HTTPPort = httpPort, Address = ''''\<rparr>
             in
             (case rangeCopy (entries (mapContents s1 (Ipxe_var s1))) s1 (Ipxe ret) of
                Inl e \<Rightarrow> Inl e
              | Inr s2 \<Rightarrow>
             (case storeFile s2 (Ipxe ret) FirmwareX86PC ipxeBios of
                Inl e \<Rightarrow> Inl e
              | Inr s3 \<Rightarrow>
             (case storeFile s3 (Ipxe ret) FirmwareEFI32 ipxeEFI32 of
                Inl e \<Rightarrow> Inl e
              | Inr s4 \<Rightarrow>
             (case storeFile s4 (Ipxe ret) FirmwareEFI64 ipxeEFI64 of
                Inl e \<Rightarrow> Inl e
              | Inr s5 \<Rightarrow>
                let ret1 = (if timestamps then ret\<lparr>Log := logWithStdLog\<rparr> else ret);
                    ret2 = (if debug then ret1\<lparr>Debug := Some (Log ret1)\<rparr> else ret1);
                    ret3 = (if addr \<noteq> None then ret2\<lparr>Address := IP_String addr\<rparr> else ret2)
                in Inr (ret3, s5)))))))))))))"

text \<open>
  \<^verbatim>\<open>CLI\<close> calls \<^verbatim>\<open>v1compatCLI\<close>, which is declared in another file of the package, and
  cobra's \<^verbatim>\<open>rootCmd.Execute\<close>. Both are parameters here: procedures that may change the
  state, and that either end the process themselves or return (a boolean; an error or
  nil). \<^verbatim>\<open>CLI\<close> returns when \<^verbatim>\<open>v1compatCLI\<close> returns true; otherwise it runs the command
  and exits, with \<^verbatim>\<open>-1\<close> after printing the error or with \<^verbatim>\<open>0\<close>.
\<close>

definition CLI ::
  "(state \<Rightarrow> (bool \<times> state) result) \<Rightarrow> (state \<Rightarrow> (error option \<times> state) result) \<Rightarrow>
   state \<Rightarrow> state result" where
  "CLI v1compatCLI rootCmd_Execute s =
     (case v1compatCLI s of
        Inl e \<Rightarrow> Inl e
      | Inr (handled, s1) \<Rightarrow>
          if handled then Inr s1
          else
            (case rootCmd_Execute s1 of
               Inl e \<Rightarrow> Inl e
             | Inr (Some err, s2) \<Rightarrow>
                 Inl (- 1, s2\<lparr>stdout := stdout s2 @ [(''%v'' @ [CHR 0x0A], [ArgError err])]\<rparr>)
             | Inr (None, s2) \<Rightarrow> Inl (0, s2)))"

subsection \<open>Names for stating the properties\<close>

text \<open>
  The flag that carries the path of the binary for a firmware type, as the three
  \<^verbatim>\<open>if\<close> statements of \<^verbatim>\<open>serverFromFlags\<close> pair them.
\<close>

definition ipxeFlag :: "Firmware \<Rightarrow> string" where
  "ipxeFlag fw =
     (case fw of
        FirmwareX86PC \<Rightarrow> ''ipxe-bios''
      | FirmwareEFI32 \<Rightarrow> ''ipxe-efi32''
      | FirmwareEFI64 \<Rightarrow> ''ipxe-efi64'')"

text \<open>
  A map value of a running Go program is nil or refers to a map object that exists:
  what holds for the package variable in every state the program reaches.
\<close>

definition validRef :: "state \<Rightarrow> mapref \<Rightarrow> bool" where
  "validRef s m = (case m of None \<Rightarrow> True | Some r \<Rightarrow> r < length (maps s))"

text \<open>
  The statement \<^verbatim>\<open>Ipxe[fwtype] = bs\<close> on the package variable, as a program that embeds
  the package may run it at any time (the variable's comment: it can be set
  externally), and a sequence of such statements.
\<close>

definition IpxeStore :: "state \<Rightarrow> Firmware \<times> slice \<Rightarrow> state result" where
  "IpxeStore s kv = mapStore s (Ipxe_var s) (fst kv) (snd kv)"

fun IpxeStores :: "state \<Rightarrow> (Firmware \<times> slice) list \<Rightarrow> state result" where
  "IpxeStores s [] = Inr s"
| "IpxeStores s (kv # kvs) =
     (case IpxeStore s kv of
        Inl e \<Rightarrow> Inl e
      | Inr s' \<Rightarrow> IpxeStores s' kvs)"

text \<open>The port that a call of \<^verbatim>\<open>serverFromFlags\<close> resolved, when it returned a server.\<close>

definition resolvedPort :: "(Server \<times> state) result \<Rightarrow> int option" where
  "resolvedPort r = (case r of Inl e \<Rightarrow> None | Inr (srv, s) \<Rightarrow> Some (HTTPPort srv))"

subsection \<open>Concrete inputs\<close>

text \<open>
  A process whose embedding program has registered binaries for BIOS and for 64-bit
  EFI, with one readable file, and with \<^verbatim>\<open>PIXIECORE_PORT=8080\<close> in its environment.
\<close>

definition registry0 :: "Firmware \<rightharpoonup> slice" where
  "registry0 = [FirmwareX86PC \<mapsto> 0, FirmwareEFI64 \<mapsto> 1]"

definition files0 :: "string \<Rightarrow> error + bytes" where
  "files0 path =
     (if path = ''/srv/ipxe.pxe'' then Inr [7, 7]
      else Inl (ErrorText ''no such file or directory''))"

definition state0 :: state where
  "state0 =
     \<lparr>arrays = [[1, 2, 3], [9]], maps = [registry0], Ipxe_var = Some 0, files = files0,
      environ = [''PIXIECORE_PORT'' \<mapsto> ''8080''],
      envPrefix = '''', automaticEnvApplied = False, stdout = []\<rparr>"

text \<open>The flags of a server command when the command line gives none of them.\<close>

definition flags0 :: FlagSet where
  "flags0 = serverConfigFlags Map.empty"

text \<open>The server and the state that \<^verbatim>\<open>serverFromFlags\<close> returns for \<open>flags0\<close> in \<open>state0\<close>.\<close>

definition server0 :: Server where
  "server0 =
     \<lparr>Ipxe = Some 1, Log = logWithStdFmt, Debug = None, HTTPPort = 80,
      Address = ''0.0.0.0''\<rparr>"

definition state0' :: state where
  "state0' = state0\<lparr>maps := [registry0, registry0]\<rparr>"

text \<open>
  The command line \<^verbatim>\<open>--debug --log-timestamps --port 9000 --ipxe-bios /srv/ipxe.pxe\<close>,
  and the server and the state that \<^verbatim>\<open>serverFromFlags\<close> returns for it in \<open>state0\<close>.
\<close>

definition flags1 :: FlagSet where
  "flags1 =
     setFlag (setFlag (setFlag (setFlag flags0
       ''debug'' (boolValue True))
       ''log-timestamps'' (boolValue True))
       ''port'' (intValue 9000))
       ''ipxe-bios'' (stringValue ''/srv/ipxe.pxe'')"

definition server1 :: Server where
  "server1 =
     \<lparr>Ipxe = Some 1, Log = logWithStdLog, Debug = Some logWithStdLog,
      HTTPPort = 9000, Address = ''0.0.0.0''\<rparr>"

definition state1 :: state where
  "state1 =
     state0\<lparr>arrays := [[1, 2, 3], [9], [7, 7]],
            maps := [registry0, registry0(FirmwareX86PC \<mapsto> 2)]\<rparr>"

text \<open>The IPv6 loopback address \<^verbatim>\<open>::1\<close>: fifteen zero bytes and a one.\<close>

definition IPv6loopback :: IP where
  "IPv6loopback = Some [0, 0, 0, 0, 0, 0, 0, 0, 0, 0, 0, 0, 0, 0, 0, 1]"

text \<open>The command line \<^verbatim>\<open>--listen-addr ::1 --port 0\<close>.\<close>

definition flags2 :: FlagSet where
  "flags2 = setFlag (setFlag flags0 ''listen-addr'' (ipValue IPv6loopback)) ''port'' (intValue 0)"

text \<open>The command line \<^verbatim>\<open>--port 0\<close>.\<close>

definition flags3 :: FlagSet where
  "flags3 = setFlag flags0 ''port'' (intValue 0)"



text \<open>
  The state \<open>state0'\<close> after the embedding program has changed the first byte of the
  binary registered for BIOS in place (\<^verbatim>\<open>Ipxe[FirmwareX86PC][0] = 0xff\<close>), and after it
  has stored two entries in the registry instead
  (\<^verbatim>\<open>Ipxe[FirmwareX86PC] = b; Ipxe[FirmwareEFI32] = a\<close>, with the two slices there are).
\<close>

definition state0_changed :: state where
  "state0_changed = state0'\<lparr>arrays := [[0xff, 2, 3], [9]]\<rparr>"

definition state0_stored :: state where
  "state0_stored =
     state0'\<lparr>maps := [registry0(FirmwareX86PC \<mapsto> 1, FirmwareEFI32 \<mapsto> 0), registry0]\<rparr>"

text \<open>
  A process whose package variable is nil, and the state in which \<^verbatim>\<open>serverFromFlags\<close>
  returns for \<open>flags0\<close> there.
\<close>

definition state_nil :: state where
  "state_nil = state0\<lparr>Ipxe_var := None\<rparr>"

definition state_nil' :: state where
  "state_nil' = state_nil\<lparr>maps := [registry0, Map.empty]\<rparr>"

section \<open>Properties\<close>

subsection \<open>The typed accessors\<close>

lemma GetBool_Inr: "GetBool f n = Inr b \<longleftrightarrow> f n = Some (boolValue b)"
  by (auto simp: GetBool_def split: option.splits Value.splits)

lemma GetInt_Inr: "GetInt f n = Inr i \<longleftrightarrow> f n = Some (intValue i)"
  by (auto simp: GetInt_def split: option.splits Value.splits)

lemma GetString_Inr: "GetString f n = Inr str \<longleftrightarrow> f n = Some (stringValue str)"
  by (auto simp: GetString_def split: option.splits Value.splits)

lemma GetIP_Inr:
  "GetIP f n = Inr a \<longleftrightarrow> (\<exists>ip. f n = Some (ipValue ip) \<and> reparseIP ip = Inr a)"
  by (auto simp: GetIP_def split: option.splits Value.splits)

lemma GetIP_ipValue: "f n = Some (ipValue ip) \<Longrightarrow> GetIP f n = reparseIP ip"
  by (simp add: GetIP_def)

text \<open>The address that \<^verbatim>\<open>GetIP\<close> returns is never nil and has 16 bytes.\<close>

lemma reparseIP_Inr_16: "reparseIP ip = Inr a \<Longrightarrow> \<exists>p. a = Some p \<and> length p = 16"
  by (auto simp: reparseIP_def IPv4_def split: option.splits if_splits)

lemma GetIP_not_nil: "GetIP f n = Inr a \<Longrightarrow> a \<noteq> None"
  by (auto simp: GetIP_Inr dest: reparseIP_Inr_16)

text \<open>It is an IPv4 address exactly when the stored one is.\<close>

lemma To4_IPv4: "To4 (IPv4 a b c d) = Some [a, b, c, d]"
  by (simp add: To4_def IPv4_def isZeros_def)

lemma reparseIP_To4:
  assumes "reparseIP ip = Inr a"
  shows "To4 a = None \<longleftrightarrow> To4 ip = None"
proof (cases ip)
  case None
  with assms show ?thesis
    by (simp add: reparseIP_def)
next
  case (Some p)
  show ?thesis
  proof (cases "length p = 4")
    case True
    with assms Some have "a = IPv4 (p ! 0) (p ! 1) (p ! 2) (p ! 3)"
      by (simp add: reparseIP_def)
    with True Some show ?thesis
      by (simp add: To4_IPv4) (simp add: To4_def)
  next
    case False
    with assms Some have "a = ip"
      by (simp add: reparseIP_def split: if_splits)
    then show ?thesis
      by simp
  qed
qed

text \<open>
  The accessor fails exactly on the addresses whose text is no IP literal: nil, and
  the slices of another length than 4 or 16.
\<close>

lemma reparseIP_Inl_iff:
  "(\<exists>e. reparseIP ip = Inl e) \<longleftrightarrow>
     ip = None \<or> (\<exists>p. ip = Some p \<and> length p \<noteq> 4 \<and> length p \<noteq> 16)"
  by (auto simp: reparseIP_def split: option.splits if_splits)

lemma reparseIP_IPv4_address:
  assumes "To4 ip \<noteq> None"
  shows "\<exists>a. reparseIP ip = Inr a \<and> To4 a \<noteq> None"
proof -
  from assms obtain p where p: "ip = Some p" and "length p = 4 \<or> length p = 16"
    by (cases ip) (auto simp: To4_def split: if_splits)
  then obtain a where a: "reparseIP ip = Inr a"
    by (auto simp: reparseIP_def)
  have "To4 a \<noteq> None"
    using assms reparseIP_To4 [OF a] by simp
  with a show ?thesis
    by (intro exI [of _ a]) simp
qed

lemma reparseIP_16: "length p = 16 \<Longrightarrow> reparseIP (Some p) = Inr (Some p)"
  by (simp add: reparseIP_def)

text \<open>
  In Go an IP address is an IPv4 address when \<^verbatim>\<open>To4\<close> does not return nil: it has 4
  bytes, or 16 bytes that start with ten zero bytes and two 0xff bytes.
\<close>

lemma To4_nil_iff:
  "To4 (Some p) = None \<longleftrightarrow>
     length p \<noteq> 4 \<and>
     \<not> (length p = 16 \<and> isZeros (take 10 p) \<and> p ! 10 = 0xff \<and> p ! 11 = 0xff)"
  by (simp add: To4_def)

subsection \<open>The store of maps\<close>

lemma panic_not_Inr [simp]: "panic s \<noteq> Inr x"
  by (simp add: panic_def)

lemma fatalf_not_Inr [simp]: "fatalf s msg args \<noteq> Inr x"
  by (simp add: fatalf_def)

lemma mapStore_valid:
  "r < length (maps s) \<Longrightarrow>
   mapStore s (Some r) k v = Inr (s\<lparr>maps := (maps s)[r := (maps s ! r)(k \<mapsto> v)]\<rparr>)"
  by (simp add: mapStore_def)

lemma mapStore_Inr_D:
  "mapStore s m k v = Inr s' \<Longrightarrow>
   \<exists>r. m = Some r \<and> r < length (maps s) \<and>
       s' = s\<lparr>maps := (maps s)[r := (maps s ! r)(k \<mapsto> v)]\<rparr>"
  by (auto simp: mapStore_def split: option.splits if_splits)

text \<open>A store on a nil map panics.\<close>

lemma mapStore_nil: "mapStore s None k v = Inl (2, s)"
  by (simp add: mapStore_def panic_def)

lemma map_add_upd_front: "m(k \<mapsto> v) ++ n = m ++ ([k \<mapsto> v] ++ n)"
  by (rule ext) (simp add: map_add_def split: option.splits)

text \<open>
  The loop on a map of the store returns, and leaves the map with the entries it was
  given added, a later one winning; nothing else of the state changes.
\<close>

lemma rangeCopy_valid:
  "r < length (maps s) \<Longrightarrow>
   rangeCopy es s (Some r) = Inr (s\<lparr>maps := (maps s)[r := maps s ! r ++ map_of (rev es)]\<rparr>)"
proof (induction es arbitrary: s)
  case Nil
  then show ?case by simp
next
  case (Cons e es)
  obtain k v where e: "e = (k, v)"
    by (cases e)
  let ?s = "s\<lparr>maps := (maps s)[r := (maps s ! r)(k \<mapsto> v)]\<rparr>"
  have len: "r < length (maps ?s)"
    using Cons.prems by simp
  have eq: "maps ?s ! r ++ map_of (rev es) = maps s ! r ++ map_of (rev (e # es))"
  proof -
    have "maps ?s ! r ++ map_of (rev es) = (maps s ! r)(k \<mapsto> v) ++ map_of (rev es)"
      using Cons.prems by simp
    also have "\<dots> = maps s ! r ++ ([k \<mapsto> v] ++ map_of (rev es))"
      by (rule map_add_upd_front)
    also have "[k \<mapsto> v] ++ map_of (rev es) = map_of (rev (e # es))"
      by (simp add: e)
    finally show ?thesis .
  qed
  have "rangeCopy (e # es) s (Some r) = rangeCopy es ?s (Some r)"
    using Cons.prems by (simp add: e mapStore_valid)
  also have "\<dots> = Inr (?s\<lparr>maps := (maps ?s)[r := maps ?s ! r ++ map_of (rev es)]\<rparr>)"
    by (rule Cons.IH [OF len])
  finally show ?case
    by (simp only: eq) simp
qed

text \<open>The entries of a map give the map back.\<close>

lemma map_of_entries: "map_of (rev (entries m)) = m"
proof (rule ext)
  fix k
  show "map_of (rev (entries m)) k = m k"
    by (cases k; cases "m FirmwareX86PC"; cases "m FirmwareEFI32"; cases "m FirmwareEFI64")
       (simp_all add: entries_def)
qed

lemma distinct_entries: "distinct (map fst (entries m))"
  by (cases "m FirmwareX86PC"; cases "m FirmwareEFI32"; cases "m FirmwareEFI64")
     (simp_all add: entries_def)

text \<open>
  The order in which \<^verbatim>\<open>range\<close> yields the entries does not matter: any list of the same
  entries with each key once leaves the same state behind.
\<close>

lemma rangeCopy_any_order:
  assumes "distinct (map fst es)" and "map_of es = m" and "r < length (maps s)"
  shows "rangeCopy es s (Some r) = rangeCopy (entries m) s (Some r)"
proof -
  have "distinct (map fst (rev es))"
    using assms(1) by (simp add: distinct_map)
  then have "map_of (rev es) = map_of es"
    using assms(1) by (simp add: map_of_inject_set)
  then show ?thesis
    using assms by (simp add: rangeCopy_valid map_of_entries)
qed

lemma mapContents_newMap:
  "mapContents (s\<lparr>maps := maps s @ [Map.empty]\<rparr>) m = mapContents s m"
  by (auto simp: mapContents_def nth_append split: option.splits)

text \<open>
  The first steps of building the server: a new map object, then the loop. They leave
  the store with one more map, which has the entries of the registry.
\<close>

lemma copy_registry:
  "rangeCopy (entries (mapContents s (Ipxe_var s))) (s\<lparr>maps := maps s @ [Map.empty]\<rparr>)
     (Some (length (maps s)))
   = Inr (s\<lparr>maps := maps s @ [mapContents s (Ipxe_var s)]\<rparr>)"
  by (simp add: rangeCopy_valid map_of_entries)

subsection \<open>Reading a file into the map\<close>

lemma storeFile_Inr:
  assumes "r < length (maps s)"
  shows "storeFile s (Some r) fw p = Inr s' \<longleftrightarrow>
     (p = '''' \<and> s' = s) \<or>
     (p \<noteq> '''' \<and> (\<exists>bs. files s p = Inr bs \<and>
        s' = s\<lparr>arrays := arrays s @ [bs],
               maps := (maps s)[r := (maps s ! r)(fw \<mapsto> length (arrays s))]\<rparr>))"
  using assms
  by (auto simp: storeFile_def mustFile_def fatalf_def newArray_def mapStore_def
           split: sum.splits)

lemma storeFile_Inl:
  assumes "r < length (maps s)" and "storeFile s (Some r) fw p = Inl (c, s')"
  shows "c = 1 \<and> p \<noteq> '''' \<and> (\<exists>err. files s p = Inl err)"
  using assms
  by (auto simp: storeFile_def mustFile_def fatalf_def newArray_def mapStore_def
           split: sum.splits if_splits)

lemma storeFile_fields:
  assumes "r < length (maps s)" and "storeFile s (Some r) fw p = Inr s'"
  shows "length (maps s') = length (maps s)" and "Ipxe_var s' = Ipxe_var s"
    and "files s' = files s" and "stdout s' = stdout s"
    and "\<exists>new. arrays s' = arrays s @ new"
  using assms by (auto simp: storeFile_Inr)

lemma storeFile_other_ref:
  "r < length (maps s) \<Longrightarrow> storeFile s (Some r) fw p = Inr s' \<Longrightarrow> m \<noteq> Some r \<Longrightarrow>
   mapContents s' m = mapContents s m"
  by (auto simp: storeFile_Inr mapContents_def split: option.splits)

lemma storeFile_other_key:
  "r < length (maps s) \<Longrightarrow> storeFile s (Some r) fw p = Inr s' \<Longrightarrow> k \<noteq> fw \<Longrightarrow>
   mapContents s' m k = mapContents s m k"
  by (auto simp: storeFile_Inr mapContents_def nth_list_update split: option.splits)

lemma storeFile_skip:
  "r < length (maps s) \<Longrightarrow> storeFile s (Some r) fw '''' = Inr s' \<Longrightarrow> s' = s"
  by (simp add: storeFile_Inr)

lemma storeFile_read:
  "r < length (maps s) \<Longrightarrow> storeFile s (Some r) fw p = Inr s' \<Longrightarrow> p \<noteq> '''' \<Longrightarrow>
   \<exists>bs. files s p = Inr bs \<and> arrays s' = arrays s @ [bs] \<and>
        mapContents s' (Some r) fw = Some (length (arrays s))"
  by (auto simp: storeFile_Inr mapContents_def)

subsection \<open>What a returned server says about the call\<close>

text \<open>
  When \<^verbatim>\<open>serverFromFlags\<close> returns, the seven flags were read, both checks passed, the
  three file statements went through, and the server is the one built from the flags.
  The state before the file statements is the one of the call with one more map, which
  has the entries of the registry.
\<close>

lemma serverFromFlags_Inr_E:
  assumes "serverFromFlags s flags = Inr (srv, s')"
  obtains debug timestamps addr httpPort ipxeBios ipxeEFI32 ipxeEFI64 s3 s4 where
    "GetBool flags ''debug'' = Inr debug"
    "GetBool flags ''log-timestamps'' = Inr timestamps"
    "GetIP flags ''listen-addr'' = Inr addr"
    "GetInt flags ''port'' = Inr httpPort"
    "GetString flags ''ipxe-bios'' = Inr ipxeBios"
    "GetString flags ''ipxe-efi32'' = Inr ipxeEFI32"
    "GetString flags ''ipxe-efi64'' = Inr ipxeEFI64"
    "addr \<noteq> None" "To4 addr \<noteq> None"
    "0 < httpPort"
    "storeFile (s\<lparr>maps := maps s @ [mapContents s (Ipxe_var s)]\<rparr>)
       (Some (length (maps s))) FirmwareX86PC ipxeBios = Inr s3"
    "storeFile s3 (Some (length (maps s))) FirmwareEFI32 ipxeEFI32 = Inr s4"
    "storeFile s4 (Some (length (maps s))) FirmwareEFI64 ipxeEFI64 = Inr s'"
    "srv = \<lparr>Ipxe = Some (length (maps s)),
            Log = (if timestamps then logWithStdLog else logWithStdFmt),
            Debug = (if debug then Some (if timestamps then logWithStdLog else logWithStdFmt)
                     else None),
            HTTPPort = httpPort,
            Address = IP_String addr\<rparr>"
proof -
  from assms obtain debug where d: "GetBool flags ''debug'' = Inr debug"
    by (cases "GetBool flags ''debug''") (simp_all add: serverFromFlags_def)
  from assms d obtain timestamps where t: "GetBool flags ''log-timestamps'' = Inr timestamps"
    by (cases "GetBool flags ''log-timestamps''") (simp_all add: serverFromFlags_def)
  from assms d t obtain addr where a: "GetIP flags ''listen-addr'' = Inr addr"
    by (cases "GetIP flags ''listen-addr''") (simp_all add: serverFromFlags_def)
  from assms d t a obtain httpPort where p: "GetInt flags ''port'' = Inr httpPort"
    by (cases "GetInt flags ''port''") (simp_all add: serverFromFlags_def)
  from assms d t a p obtain ipxeBios where b: "GetString flags ''ipxe-bios'' = Inr ipxeBios"
    by (cases "GetString flags ''ipxe-bios''") (simp_all add: serverFromFlags_def)
  from assms d t a p b obtain ipxeEFI32
    where e32: "GetString flags ''ipxe-efi32'' = Inr ipxeEFI32"
    by (cases "GetString flags ''ipxe-efi32''") (simp_all add: serverFromFlags_def)
  from assms d t a p b e32 obtain ipxeEFI64
    where e64: "GetString flags ''ipxe-efi64'' = Inr ipxeEFI64"
    by (cases "GetString flags ''ipxe-efi64''") (simp_all add: serverFromFlags_def)
  note reads = d t a p b e32 e64
  have nn: "addr \<noteq> None"
    using a by (rule GetIP_not_nil)
  from assms reads nn have v1: "To4 addr \<noteq> None"
    by (auto simp: serverFromFlags_def split: if_splits)
  from assms reads nn v1 have v2: "0 < httpPort"
    by (auto simp: serverFromFlags_def split: if_splits)
  let ?m = "Some (length (maps s))"
  let ?s2 = "s\<lparr>maps := maps s @ [mapContents s (Ipxe_var s)]\<rparr>"
  note unfold = serverFromFlags_def newMap_def mapContents_newMap copy_registry Let_def
  from assms reads nn v1 v2 obtain s3 where s3: "storeFile ?s2 ?m FirmwareX86PC ipxeBios = Inr s3"
    by (cases "storeFile ?s2 ?m FirmwareX86PC ipxeBios") (auto simp: unfold)
  from assms reads nn v1 v2 s3 obtain s4 where s4: "storeFile s3 ?m FirmwareEFI32 ipxeEFI32 = Inr s4"
    by (cases "storeFile s3 ?m FirmwareEFI32 ipxeEFI32") (auto simp: unfold)
  from assms reads nn v1 v2 s3 s4 have s5: "storeFile s4 ?m FirmwareEFI64 ipxeEFI64 = Inr s'"
    by (cases "storeFile s4 ?m FirmwareEFI64 ipxeEFI64") (auto simp: unfold)
  from assms reads nn v1 v2 s3 s4 s5 have srv: "srv = \<lparr>Ipxe = Some (length (maps s)),
            Log = (if timestamps then logWithStdLog else logWithStdFmt),
            Debug = (if debug then Some (if timestamps then logWithStdLog else logWithStdFmt)
                     else None),
            HTTPPort = httpPort,
            Address = IP_String addr\<rparr>"
    by (auto simp: unfold)
  show thesis
    by (rule that [OF d t a p b e32 e64 nn v1 v2 s3 s4 s5 srv])
qed

text \<open>
  The three file statements, one after the other, on the new map: the states they go
  through keep the maps' number, the package variable, the files and the output, and
  only add arrays.
\<close>

lemma storeFile_chain:
  assumes r: "r < length (maps s2)"
    and st1: "storeFile s2 (Some r) fw1 p1 = Inr s3"
    and st2: "storeFile s3 (Some r) fw2 p2 = Inr s4"
    and st3: "storeFile s4 (Some r) fw3 p3 = Inr s5"
  shows "r < length (maps s3)" and "r < length (maps s4)" and "r < length (maps s5)"
    and "files s3 = files s2" and "files s4 = files s2" and "files s5 = files s2"
    and "length (maps s5) = length (maps s2)" and "Ipxe_var s5 = Ipxe_var s2"
    and "stdout s5 = stdout s2"
    and "\<exists>new. arrays s4 = arrays s3 @ new" and "\<exists>new. arrays s5 = arrays s4 @ new"
    and "\<exists>new. arrays s5 = arrays s2 @ new"
proof -
  note f1 = storeFile_fields [OF r st1]
  show r3: "r < length (maps s3)"
    using r f1(1) by simp
  note f2 = storeFile_fields [OF r3 st2]
  show r4: "r < length (maps s4)"
    using r3 f2(1) by simp
  note f3 = storeFile_fields [OF r4 st3]
  show "r < length (maps s5)"
    using r4 f3(1) by simp
  show "files s3 = files s2" "files s4 = files s2" "files s5 = files s2"
    using f1(3) f2(3) f3(3) by simp_all
  show "length (maps s5) = length (maps s2)" "Ipxe_var s5 = Ipxe_var s2"
    "stdout s5 = stdout s2"
    using f1 f2 f3 by simp_all
  show "\<exists>new. arrays s4 = arrays s3 @ new" "\<exists>new. arrays s5 = arrays s4 @ new"
    using f2(5) f3(5) by simp_all
  from f1(5) f2(5) f3(5) show "\<exists>new. arrays s5 = arrays s2 @ new"
    by auto
qed

text \<open>
  Every exit of \<^verbatim>\<open>serverFromFlags\<close> is \<^verbatim>\<open>os.Exit(1)\<close>: the map it stores into is never nil,
  so that no store panics.
\<close>

lemma serverFromFlags_exit_1: "serverFromFlags s flags = Inl (c, s') \<Longrightarrow> c = 1"
  by (auto simp: serverFromFlags_def fatalf_def newMap_def mapContents_newMap copy_registry
        Let_def storeFile_def mustFile_def newArray_def mapStore_def
      split: sum.splits if_splits prod.splits)

text \<open>The server's map is a new object of the store; the arrays there were stay.\<close>

lemma serverFromFlags_store:
  assumes "serverFromFlags s flags = Inr (srv, s')"
  shows "Ipxe srv = Some (length (maps s))" and "length (maps s') = Suc (length (maps s))"
    and "Ipxe_var s' = Ipxe_var s" and "files s' = files s" and "stdout s' = stdout s"
    and "\<exists>new. arrays s' = arrays s @ new"
proof -
  let ?s2 = "s\<lparr>maps := maps s @ [mapContents s (Ipxe_var s)]\<rparr>"
  from assms obtain p1 p2 p3 s3 s4 where
    st: "storeFile ?s2 (Some (length (maps s))) FirmwareX86PC p1 = Inr s3"
        "storeFile s3 (Some (length (maps s))) FirmwareEFI32 p2 = Inr s4"
        "storeFile s4 (Some (length (maps s))) FirmwareEFI64 p3 = Inr s'"
    and srv: "Ipxe srv = Some (length (maps s))"
    by (elim serverFromFlags_Inr_E) simp
  have r: "length (maps s) < length (maps ?s2)"
    by simp
  note ch = storeFile_chain [OF r st]
  show "Ipxe srv = Some (length (maps s))" by (rule srv)
  show "length (maps s') = Suc (length (maps s))"
    using ch(7) by simp
  show "Ipxe_var s' = Ipxe_var s"
    using ch(8) by simp
  show "files s' = files s"
    using ch(6) by simp
  show "stdout s' = stdout s"
    using ch(9) by simp
  show "\<exists>new. arrays s' = arrays s @ new"
    using ch(12) by simp
qed

text \<open>The maps that the store held before the call are as they were.\<close>

lemma serverFromFlags_frame:
  assumes "serverFromFlags s flags = Inr (srv, s')" and "r < length (maps s)"
  shows "mapContents s' (Some r) = mapContents s (Some r)"
proof -
  let ?s2 = "s\<lparr>maps := maps s @ [mapContents s (Ipxe_var s)]\<rparr>"
  let ?m = "Some (length (maps s))"
  from assms(1) obtain p1 p2 p3 s3 s4 where
    st: "storeFile ?s2 ?m FirmwareX86PC p1 = Inr s3"
        "storeFile s3 ?m FirmwareEFI32 p2 = Inr s4"
        "storeFile s4 ?m FirmwareEFI64 p3 = Inr s'"
    by (elim serverFromFlags_Inr_E) simp
  have r2: "length (maps s) < length (maps ?s2)"
    by simp
  note ch = storeFile_chain [OF r2 st]
  have ne: "Some r \<noteq> ?m"
    using assms(2) by simp
  have "mapContents s' (Some r) = mapContents ?s2 (Some r)"
    using storeFile_other_ref [OF r2 st(1) ne] storeFile_other_ref [OF ch(1) st(2) ne]
      storeFile_other_ref [OF ch(2) st(3) ne] by simp
  also have "\<dots> = mapContents s (Some r)"
    using assms(2) by (simp add: mapContents_def nth_append)
  finally show ?thesis .
qed

text \<open>
  The entry of the server's map for a firmware type: the registry's own slice when the
  flag of that type is empty; when it names a file, a slice that the call has made,
  with the contents of the file.
\<close>

lemma serverFromFlags_entry:
  assumes "serverFromFlags s flags = Inr (srv, s')"
    and "flags (ipxeFlag fw) = Some (stringValue p)"
  shows "p = '''' \<Longrightarrow> mapContents s' (Ipxe srv) fw = mapContents s (Ipxe_var s) fw"
    and "p \<noteq> '''' \<Longrightarrow>
         \<exists>bs sl. files s p = Inr bs \<and> mapContents s' (Ipxe srv) fw = Some sl \<and>
           length (arrays s) \<le> sl \<and> sl < length (arrays s') \<and> arrays s' ! sl = bs"
proof -
  define r where "r = length (maps s)"
  define s2 where "s2 = s\<lparr>maps := maps s @ [mapContents s (Ipxe_var s)]\<rparr>"
  from assms(1) obtain ipxeBios ipxeEFI32 ipxeEFI64 s3 s4 where
    gs: "GetString flags ''ipxe-bios'' = Inr ipxeBios"
        "GetString flags ''ipxe-efi32'' = Inr ipxeEFI32"
        "GetString flags ''ipxe-efi64'' = Inr ipxeEFI64"
    and st1: "storeFile s2 (Some r) FirmwareX86PC ipxeBios = Inr s3"
    and st2: "storeFile s3 (Some r) FirmwareEFI32 ipxeEFI32 = Inr s4"
    and st3: "storeFile s4 (Some r) FirmwareEFI64 ipxeEFI64 = Inr s'"
    and srv: "Ipxe srv = Some r"
    unfolding r_def s2_def by (elim serverFromFlags_Inr_E) simp
  note fl = gs [unfolded GetString_Inr]
  have r2: "r < length (maps s2)"
    by (simp add: r_def s2_def)
  note ch = storeFile_chain [OF r2 st1 st2 st3]
  have g: "mapContents s2 (Some r) = mapContents s (Ipxe_var s)"
    by (simp add: s2_def r_def mapContents_def)
  have f2: "files s2 = files s" and a2: "arrays s2 = arrays s"
    by (simp_all add: s2_def)
  have bios_later: "mapContents s' (Some r) FirmwareX86PC = mapContents s3 (Some r) FirmwareX86PC"
    using storeFile_other_key [OF ch(1) st2, of FirmwareX86PC "Some r"]
      storeFile_other_key [OF ch(2) st3, of FirmwareX86PC "Some r"] by simp
  have efi32_before:
    "mapContents s3 (Some r) FirmwareEFI32 = mapContents s (Ipxe_var s) FirmwareEFI32"
    using storeFile_other_key [OF r2 st1, of FirmwareEFI32 "Some r"] g by simp
  have efi32_later: "mapContents s' (Some r) FirmwareEFI32 = mapContents s4 (Some r) FirmwareEFI32"
    using storeFile_other_key [OF ch(2) st3, of FirmwareEFI32 "Some r"] by simp
  have efi64_before:
    "mapContents s4 (Some r) FirmwareEFI64 = mapContents s (Ipxe_var s) FirmwareEFI64"
    using storeFile_other_key [OF r2 st1, of FirmwareEFI64 "Some r"]
      storeFile_other_key [OF ch(1) st2, of FirmwareEFI64 "Some r"] g by simp
  show "mapContents s' (Ipxe srv) fw = mapContents s (Ipxe_var s) fw" if "p = ''''"
  proof (cases fw)
    case FirmwareX86PC
    with assms(2) fl that have "s3 = s2"
      using storeFile_skip [OF r2, of FirmwareX86PC s3] st1 by (simp add: ipxeFlag_def)
    with FirmwareX86PC bios_later g srv show ?thesis by simp
  next
    case FirmwareEFI32
    with assms(2) fl that have "s4 = s3"
      using storeFile_skip [OF ch(1), of FirmwareEFI32 s4] st2 by (simp add: ipxeFlag_def)
    with FirmwareEFI32 efi32_later efi32_before srv show ?thesis by simp
  next
    case FirmwareEFI64
    with assms(2) fl that have "s' = s4"
      using storeFile_skip [OF ch(2), of FirmwareEFI64 s'] st3 by (simp add: ipxeFlag_def)
    with FirmwareEFI64 efi64_before srv show ?thesis by simp
  qed
  show "\<exists>bs sl. files s p = Inr bs \<and> mapContents s' (Ipxe srv) fw = Some sl \<and>
           length (arrays s) \<le> sl \<and> sl < length (arrays s') \<and> arrays s' ! sl = bs"
    if "p \<noteq> ''''"
  proof (cases fw)
    case FirmwareX86PC
    with assms(2) fl have "p = ipxeBios" by (simp add: ipxeFlag_def)
    with storeFile_read [OF r2 st1] that obtain bs where
      bs: "files s2 p = Inr bs" "arrays s3 = arrays s2 @ [bs]"
        "mapContents s3 (Some r) FirmwareX86PC = Some (length (arrays s2))"
      by auto
    from ch(10) ch(11) bs(2) obtain new where new: "arrays s' = arrays s2 @ [bs] @ new"
      by auto
    with bs f2 a2 FirmwareX86PC bios_later srv show ?thesis
      by (simp add: nth_append)
  next
    case FirmwareEFI32
    with assms(2) fl have "p = ipxeEFI32" by (simp add: ipxeFlag_def)
    with storeFile_read [OF ch(1) st2] that obtain bs where
      bs: "files s3 p = Inr bs" "arrays s4 = arrays s3 @ [bs]"
        "mapContents s4 (Some r) FirmwareEFI32 = Some (length (arrays s3))"
      by auto
    from storeFile_fields(5) [OF r2 st1] obtain old where old: "arrays s3 = arrays s2 @ old"
      by auto
    from ch(11) bs(2) obtain new where new: "arrays s' = arrays s3 @ [bs] @ new"
      by auto
    with bs ch(4) f2 a2 old FirmwareEFI32 efi32_later srv show ?thesis
      by (simp add: nth_append)
  next
    case FirmwareEFI64
    with assms(2) fl have "p = ipxeEFI64" by (simp add: ipxeFlag_def)
    with storeFile_read [OF ch(2) st3] that obtain bs where
      bs: "files s4 p = Inr bs" "arrays s' = arrays s4 @ [bs]"
        "mapContents s' (Some r) FirmwareEFI64 = Some (length (arrays s4))"
      by auto
    from storeFile_fields(5) [OF r2 st1] ch(10) obtain old where old: "arrays s4 = arrays s2 @ old"
      by auto
    with bs ch(5) f2 a2 FirmwareEFI64 srv show ?thesis
      by (simp add: nth_append)
  qed
qed

text \<open>
  \<^verbatim>\<open>serverFromFlags\<close> does return a server when the seven flags are read, the address
  is an IPv4 address, the port is positive and every file named is readable.
\<close>

lemma serverFromFlags_succeeds:
  assumes "GetBool flags ''debug'' = Inr debug"
    and "GetBool flags ''log-timestamps'' = Inr timestamps"
    and "GetIP flags ''listen-addr'' = Inr addr"
    and "GetInt flags ''port'' = Inr httpPort"
    and "GetString flags ''ipxe-bios'' = Inr ipxeBios"
    and "GetString flags ''ipxe-efi32'' = Inr ipxeEFI32"
    and "GetString flags ''ipxe-efi64'' = Inr ipxeEFI64"
    and "To4 addr \<noteq> None"
    and "0 < httpPort"
    and "ipxeBios = '''' \<or> (\<exists>bs. files s ipxeBios = Inr bs)"
    and "ipxeEFI32 = '''' \<or> (\<exists>bs. files s ipxeEFI32 = Inr bs)"
    and "ipxeEFI64 = '''' \<or> (\<exists>bs. files s ipxeEFI64 = Inr bs)"
  shows "\<exists>srv s'. serverFromFlags s flags = Inr (srv, s')"
proof -
  let ?m = "Some (length (maps s))"
  let ?s2 = "s\<lparr>maps := maps s @ [mapContents s (Ipxe_var s)]\<rparr>"
  have r2: "length (maps s) < length (maps ?s2)" and f2: "files ?s2 = files s"
    by simp_all
  from assms(10) f2 obtain s3 where st1: "storeFile ?s2 ?m FirmwareX86PC ipxeBios = Inr s3"
    by (auto simp: storeFile_Inr [OF r2])
  note f1 = storeFile_fields [OF r2 st1]
  have r3: "length (maps s) < length (maps s3)" and f3: "files s3 = files s"
    using r2 f1 f2 by simp_all
  from assms(11) f3 obtain s4 where st2: "storeFile s3 ?m FirmwareEFI32 ipxeEFI32 = Inr s4"
    by (auto simp: storeFile_Inr [OF r3])
  note f2' = storeFile_fields [OF r3 st2]
  have r4: "length (maps s) < length (maps s4)" and f4: "files s4 = files s"
    using r3 f2' f3 by simp_all
  from assms(12) f4 obtain s5 where st3: "storeFile s4 ?m FirmwareEFI64 ipxeEFI64 = Inr s5"
    by (auto simp: storeFile_Inr [OF r4])
  from assms(8,9) st1 st2 st3 show ?thesis
    by (auto simp: serverFromFlags_def assms(1-7) newMap_def mapContents_newMap copy_registry
        Let_def)
qed

text \<open>
  The address of a returned server is the dotted decimal text of an IPv4 address:
  \<^verbatim>\<open>IP.String\<close> is only called on an address that passed the check.
\<close>

lemma serverFromFlags_Address:
  assumes "serverFromFlags s flags = Inr (srv, s')"
    and "GetIP flags ''listen-addr'' = Inr addr"
  shows "\<exists>p4. To4 addr = Some p4 \<and> length p4 = 4 \<and>
            Address srv =
              uitoa (unat (p4 ! 0)) @ ''.'' @ uitoa (unat (p4 ! 1)) @ ''.'' @
              uitoa (unat (p4 ! 2)) @ ''.'' @ uitoa (unat (p4 ! 3))"
proof -
  from assms have ok: "To4 addr \<noteq> None" and a: "Address srv = IP_String addr"
    by (elim serverFromFlags_Inr_E; simp)+
  from assms(2) obtain p where p: "addr = Some p" "length p = 16"
    by (auto simp: GetIP_Inr dest: reparseIP_Inr_16)
  from ok p obtain p4 where p4: "To4 (Some p) = Some p4"
    by auto
  then have "length p4 = 4"
    using p(2) by (auto simp: To4_def split: if_splits)
  moreover have "p \<noteq> []"
    using p(2) by auto
  ultimately show ?thesis
    using p a p4 by (simp add: IP_String_def)
qed

subsection \<open>Evaluation at the concrete inputs\<close>

lemma To4_IPv4zero: "To4 IPv4zero = Some [0, 0, 0, 0]"
  by (simp add: IPv4zero_def To4_IPv4)

lemma To4_IPv6loopback: "To4 IPv6loopback = None"
  by (simp add: To4_def IPv6loopback_def isZeros_def)

lemma IP_String_IPv4zero: "IP_String IPv4zero = ''0.0.0.0''"
  by (simp add: IP_String_def To4_def IPv4zero_def IPv4_def isZeros_def uitoa.simps)

lemma IPv4zero_not_nil: "IPv4zero \<noteq> None"
  by (simp add: IPv4zero_def IPv4_def)

lemma IPv4zero_Some: "\<exists>p. IPv4zero = Some p"
  by (simp add: IPv4zero_def IPv4_def)

lemma IPv6loopback_not_nil: "IPv6loopback \<noteq> None"
  by (simp add: IPv6loopback_def)

lemma reparseIP_IPv4zero: "reparseIP IPv4zero = Inr IPv4zero"
  by (simp add: IPv4zero_def IPv4_def reparseIP_def)

lemma reparseIP_IPv6loopback: "reparseIP IPv6loopback = Inr IPv6loopback"
  by (simp add: IPv6loopback_def reparseIP_def)

lemma flags0_values:
  "flags0 ''debug'' = Some (boolValue False)"
  "flags0 ''log-timestamps'' = Some (boolValue False)"
  "flags0 ''listen-addr'' = Some (ipValue IPv4zero)"
  "flags0 ''port'' = Some (intValue 80)"
  "flags0 ''ipxe-bios'' = Some (stringValue '''')"
  "flags0 ''ipxe-efi32'' = Some (stringValue '''')"
  "flags0 ''ipxe-efi64'' = Some (stringValue '''')"
  by (simp_all add: flags0_def serverConfigFlags_def)

lemma flags0_reads:
  "GetBool flags0 ''debug'' = Inr False"
  "GetBool flags0 ''log-timestamps'' = Inr False"
  "GetIP flags0 ''listen-addr'' = Inr IPv4zero"
  "GetInt flags0 ''port'' = Inr 80"
  "GetString flags0 ''ipxe-bios'' = Inr ''''"
  "GetString flags0 ''ipxe-efi32'' = Inr ''''"
  "GetString flags0 ''ipxe-efi64'' = Inr ''''"
  by (simp_all add: GetBool_Inr GetInt_Inr GetString_Inr GetIP_ipValue flags0_values
      reparseIP_IPv4zero)

lemma flags1_values:
  "flags1 ''debug'' = Some (boolValue True)"
  "flags1 ''log-timestamps'' = Some (boolValue True)"
  "flags1 ''listen-addr'' = Some (ipValue IPv4zero)"
  "flags1 ''port'' = Some (intValue 9000)"
  "flags1 ''ipxe-bios'' = Some (stringValue ''/srv/ipxe.pxe'')"
  "flags1 ''ipxe-efi32'' = Some (stringValue '''')"
  "flags1 ''ipxe-efi64'' = Some (stringValue '''')"
  by (simp_all add: flags1_def flags0_def setFlag_def serverConfigFlags_def)

lemma flags1_reads:
  "GetBool flags1 ''debug'' = Inr True"
  "GetBool flags1 ''log-timestamps'' = Inr True"
  "GetIP flags1 ''listen-addr'' = Inr IPv4zero"
  "GetInt flags1 ''port'' = Inr 9000"
  "GetString flags1 ''ipxe-bios'' = Inr ''/srv/ipxe.pxe''"
  "GetString flags1 ''ipxe-efi32'' = Inr ''''"
  "GetString flags1 ''ipxe-efi64'' = Inr ''''"
  by (simp_all add: GetBool_Inr GetInt_Inr GetString_Inr GetIP_ipValue flags1_values
      reparseIP_IPv4zero)

lemma flags2_reads:
  "GetBool flags2 ''debug'' = Inr False"
  "GetBool flags2 ''log-timestamps'' = Inr False"
  "GetIP flags2 ''listen-addr'' = Inr IPv6loopback"
  "GetInt flags2 ''port'' = Inr 0"
  "GetString flags2 ''ipxe-bios'' = Inr ''''"
  "GetString flags2 ''ipxe-efi32'' = Inr ''''"
  "GetString flags2 ''ipxe-efi64'' = Inr ''''"
  by (simp_all add: GetBool_Inr GetInt_Inr GetString_Inr GetIP_ipValue flags2_def setFlag_def
      flags0_values reparseIP_IPv6loopback)

lemma flags3_reads:
  "GetBool flags3 ''debug'' = Inr False"
  "GetBool flags3 ''log-timestamps'' = Inr False"
  "GetIP flags3 ''listen-addr'' = Inr IPv4zero"
  "GetInt flags3 ''port'' = Inr 0"
  "GetString flags3 ''ipxe-bios'' = Inr ''''"
  "GetString flags3 ''ipxe-efi32'' = Inr ''''"
  "GetString flags3 ''ipxe-efi64'' = Inr ''''"
  by (simp_all add: GetBool_Inr GetInt_Inr GetString_Inr GetIP_ipValue flags3_def setFlag_def
      flags0_values reparseIP_IPv4zero)


lemma state0_registry: "mapContents state0 (Ipxe_var state0) = registry0"
  by (simp add: state0_def mapContents_def)

lemma serverFromFlags_state0_flags0: "serverFromFlags state0 flags0 = Inr (server0, state0')"
  by (simp add: serverFromFlags_def flags0_reads To4_IPv4zero IP_String_IPv4zero
      IPv4zero_not_nil newMap_def mapContents_newMap copy_registry Let_def)
     (simp add: storeFile_def mapContents_def server0_def state0'_def state0_def Let_def
        IPv4zero_Some IP_String_IPv4zero)

lemma serverFromFlags_state0_flags1: "serverFromFlags state0 flags1 = Inr (server1, state1)"
  by (simp add: serverFromFlags_def flags1_reads To4_IPv4zero IP_String_IPv4zero
      IPv4zero_not_nil newMap_def mapContents_newMap copy_registry Let_def)
     (simp add: storeFile_def mustFile_def newArray_def mapStore_def mapContents_def
        server1_def state1_def state0_def files0_def Let_def IPv4zero_Some
        IP_String_IPv4zero numeral_2_eq_2)


subsection \<open>The resolved port and the environment\<close>

lemma resolvedPort_Some:
  "resolvedPort (serverFromFlags s flags) = Some p \<longleftrightarrow>
     (\<exists>srv s'. serverFromFlags s flags = Inr (srv, s') \<and> HTTPPort srv = p)"
  by (auto simp: resolvedPort_def split: sum.splits)

text \<open>The port of a returned server is the value that the flag \<^verbatim>\<open>port\<close> holds.\<close>

lemma HTTPPort_is_flag:
  assumes "serverFromFlags s flags = Inr (srv, s')" and "flags ''port'' = Some (intValue p)"
  shows "HTTPPort srv = p"
  using assms by (elim serverFromFlags_Inr_E) (simp add: GetInt_Inr)

text \<open>Whether a server is returned depends on the flags and on the files only.\<close>

lemma serverFromFlags_returns_iff:
  "(\<exists>srv s'. serverFromFlags s flags = Inr (srv, s')) \<longleftrightarrow>
     (\<exists>debug timestamps addr httpPort ipxeBios ipxeEFI32 ipxeEFI64.
        GetBool flags ''debug'' = Inr debug \<and>
        GetBool flags ''log-timestamps'' = Inr timestamps \<and>
        GetIP flags ''listen-addr'' = Inr addr \<and>
        GetInt flags ''port'' = Inr httpPort \<and>
        GetString flags ''ipxe-bios'' = Inr ipxeBios \<and>
        GetString flags ''ipxe-efi32'' = Inr ipxeEFI32 \<and>
        GetString flags ''ipxe-efi64'' = Inr ipxeEFI64 \<and>
        To4 addr \<noteq> None \<and> 0 < httpPort \<and>
        (ipxeBios = '''' \<or> (\<exists>bs. files s ipxeBios = Inr bs)) \<and>
        (ipxeEFI32 = '''' \<or> (\<exists>bs. files s ipxeEFI32 = Inr bs)) \<and>
        (ipxeEFI64 = '''' \<or> (\<exists>bs. files s ipxeEFI64 = Inr bs)))"
  (is "?returns \<longleftrightarrow> ?ok")
proof
  assume ?returns
  then obtain srv s' where ret: "serverFromFlags s flags = Inr (srv, s')"
    by blast
  from ret obtain debug timestamps addr httpPort ipxeBios ipxeEFI32 ipxeEFI64 where
    rd: "GetBool flags ''debug'' = Inr debug"
        "GetBool flags ''log-timestamps'' = Inr timestamps"
        "GetIP flags ''listen-addr'' = Inr addr"
        "GetInt flags ''port'' = Inr httpPort"
        "GetString flags ''ipxe-bios'' = Inr ipxeBios"
        "GetString flags ''ipxe-efi32'' = Inr ipxeEFI32"
        "GetString flags ''ipxe-efi64'' = Inr ipxeEFI64"
    and ok: "To4 addr \<noteq> None" "0 < httpPort"
    by (elim serverFromFlags_Inr_E) blast
  note fl = rd(5-7) [unfolded GetString_Inr]
  have "ipxeBios = '''' \<or> (\<exists>bs. files s ipxeBios = Inr bs)"
    using serverFromFlags_entry(2) [OF ret, of FirmwareX86PC ipxeBios] fl
    by (auto simp: ipxeFlag_def)
  moreover have "ipxeEFI32 = '''' \<or> (\<exists>bs. files s ipxeEFI32 = Inr bs)"
    using serverFromFlags_entry(2) [OF ret, of FirmwareEFI32 ipxeEFI32] fl
    by (auto simp: ipxeFlag_def)
  moreover have "ipxeEFI64 = '''' \<or> (\<exists>bs. files s ipxeEFI64 = Inr bs)"
    using serverFromFlags_entry(2) [OF ret, of FirmwareEFI64 ipxeEFI64] fl
    by (auto simp: ipxeFlag_def)
  ultimately show ?ok
    using rd ok by blast
next
  assume ?ok
  then show ?returns
    by (elim exE conjE) (rule serverFromFlags_succeeds)
qed

text \<open>
  The environment and viper's settings are not inputs of \<^verbatim>\<open>serverFromFlags\<close>: two states
  with the same files resolve the same port.
\<close>

lemma resolvedPort_files_only:
  assumes "files s1 = files s2"
  shows "resolvedPort (serverFromFlags s1 flags) = resolvedPort (serverFromFlags s2 flags)"
proof -
  have ret: "(\<exists>srv s'. serverFromFlags s1 flags = Inr (srv, s')) \<longleftrightarrow>
      (\<exists>srv s'. serverFromFlags s2 flags = Inr (srv, s'))"
    by (simp only: serverFromFlags_returns_iff assms)
  show ?thesis
  proof (cases "serverFromFlags s1 flags")
    case (Inl e)
    with ret have "\<exists>e'. serverFromFlags s2 flags = Inl e'"
      by (cases "serverFromFlags s2 flags") auto
    with Inl show ?thesis
      by (auto simp: resolvedPort_def)
  next
    case (Inr v)
    obtain srv s' where v: "v = (srv, s')"
      by (cases v)
    with Inr ret obtain srv2 s2' where r2: "serverFromFlags s2 flags = Inr (srv2, s2')"
      by auto
    from Inr v have r1: "serverFromFlags s1 flags = Inr (srv, s')"
      by simp
    then obtain p where p: "flags ''port'' = Some (intValue p)"
      by (elim serverFromFlags_Inr_E) (auto simp: GetInt_Inr)
    have "HTTPPort srv = p" "HTTPPort srv2 = p"
      using HTTPPort_is_flag [OF r1 p] HTTPPort_is_flag [OF r2 p] by auto
    with r1 r2 show ?thesis
      by (simp add: resolvedPort_def)
  qed
qed

lemma resolvedPort_initConfig:
  "resolvedPort (serverFromFlags (initConfig s) flags) = resolvedPort (serverFromFlags s flags)"
  by (rule resolvedPort_files_only) (simp add: initConfig_def)

lemma resolvedPort_environ:
  "resolvedPort (serverFromFlags (s\<lparr>environ := e\<rparr>) flags) = resolvedPort (serverFromFlags s flags)"
  by (rule resolvedPort_files_only) simp

text \<open>
  C1. The specification gives a value the precedence explicit flag, then environment
  variable, then default: with \<^verbatim>\<open>--port\<close> unset and \<^verbatim>\<open>PIXIECORE_PORT=8080\<close> the port is to
  be 8080, and 9000 when \<^verbatim>\<open>--port 9000\<close> is given as well. In the code the port is read
  with \<^verbatim>\<open>cmd.Flags().GetInt("port")\<close>, the flag's own value, and no environment variable
  reaches it: after \<^verbatim>\<open>initConfig\<close>, with that variable set and no flag on the command
  line, the server has port 80, the default. With \<^verbatim>\<open>--port 9000\<close> it has port 9000.
\<close>

theorem environment_port_is_not_read:
  "environ (initConfig state0) ''PIXIECORE_PORT'' = Some ''8080'' \<and>
   envPrefix (initConfig state0) = ''pixiecore'' \<and>
   automaticEnvApplied (initConfig state0) \<and>
   flags0 ''port'' = Some (intValue 80) \<and>
   resolvedPort (serverFromFlags (initConfig state0) flags0) = Some 80 \<and>
   resolvedPort (serverFromFlags (initConfig state0) (setFlag flags0 ''port'' (intValue 9000)))
     = Some 9000"
proof -
  have env: "environ (initConfig state0) ''PIXIECORE_PORT'' = Some ''8080''"
    "envPrefix (initConfig state0) = ''pixiecore''" "automaticEnvApplied (initConfig state0)"
    by (simp_all add: initConfig_def state0_def)
  have unset: "resolvedPort (serverFromFlags state0 flags0) = Some 80"
    by (simp add: serverFromFlags_state0_flags0 resolvedPort_def server0_def)
  have fl: "setFlag flags0 ''port'' (intValue 9000) ''port'' = Some (intValue 9000)"
    by (simp add: setFlag_def)
  have "\<exists>srv s'. serverFromFlags state0 (setFlag flags0 ''port'' (intValue 9000)) = Inr (srv, s')"
    by (rule serverFromFlags_succeeds [of _ False False IPv4zero 9000 "''''" "''''" "''''"])
       (simp_all add: GetBool_Inr GetInt_Inr GetString_Inr GetIP_ipValue setFlag_def
          flags0_values reparseIP_IPv4zero To4_IPv4zero)
  then obtain srv s'
    where "serverFromFlags state0 (setFlag flags0 ''port'' (intValue 9000)) = Inr (srv, s')"
    by blast
  then have given:
    "resolvedPort (serverFromFlags state0 (setFlag flags0 ''port'' (intValue 9000))) = Some 9000"
    using HTTPPort_is_flag [of state0 "setFlag flags0 ''port'' (intValue 9000)" srv s' 9000] fl
    by (simp add: resolvedPort_def)
  from env unset given show ?thesis
    by (simp add: resolvedPort_initConfig flags0_values)
qed

subsection \<open>The order of the two checks\<close>

text \<open>
  C2, as the specification has it (the port check first, so that the port error is
  reported when both checks fail), does not hold: for \<^verbatim>\<open>--listen-addr ::1 --port 0\<close> the
  one message printed is the address error.
\<close>

theorem port_check_first_counterexample:
  "GetInt flags2 ''port'' = Inr 0 \<and>
   GetIP flags2 ''listen-addr'' = Inr IPv6loopback \<and>
   To4 IPv6loopback = None \<and>
   exit_status (serverFromFlags state0 flags2) = Some 1 \<and>
   printed (serverFromFlags state0 flags2) = [(''Listen address must be IPv4'' @ [CHR 0x0A], [])] \<and>
   printed (serverFromFlags state0 flags2) \<noteq> [(''HTTP port must be >0'' @ [CHR 0x0A], [])]"
  by (simp add: serverFromFlags_def flags2_reads To4_IPv6loopback IPv6loopback_not_nil
      fatalf_def exit_status_def printed_def state0_def)

text \<open>
  C2, amended. Once the seven flags are read (each accessor has returned a value), the
  address check runs first and the port check second, the first failure ending the
  process: an address that is no IPv4 address gives the address error whatever the
  port is, and a port that is not positive gives the port error only when the address
  has passed.
\<close>

theorem address_check_before_port_check:
  assumes "GetBool flags ''debug'' = Inr debug"
    and "GetBool flags ''log-timestamps'' = Inr timestamps"
    and "GetIP flags ''listen-addr'' = Inr addr"
    and "GetInt flags ''port'' = Inr httpPort"
    and "GetString flags ''ipxe-bios'' = Inr ipxeBios"
    and "GetString flags ''ipxe-efi32'' = Inr ipxeEFI32"
    and "GetString flags ''ipxe-efi64'' = Inr ipxeEFI64"
  shows "(addr \<noteq> None \<and> To4 addr = None \<longrightarrow>
            serverFromFlags s flags = fatalf s ''Listen address must be IPv4'' []) \<and>
         ((addr = None \<or> To4 addr \<noteq> None) \<and> httpPort \<le> 0 \<longrightarrow>
            serverFromFlags s flags = fatalf s ''HTTP port must be >0'' [])"
  by (auto simp: serverFromFlags_def assms)

theorem address_check_before_port_check_witness:
  "GetBool flags2 ''debug'' = Inr False \<and>
   GetBool flags2 ''log-timestamps'' = Inr False \<and>
   GetIP flags2 ''listen-addr'' = Inr IPv6loopback \<and>
   GetInt flags2 ''port'' = Inr 0 \<and>
   GetString flags2 ''ipxe-bios'' = Inr '''' \<and>
   GetString flags2 ''ipxe-efi32'' = Inr '''' \<and>
   GetString flags2 ''ipxe-efi64'' = Inr '''' \<and>
   IPv6loopback \<noteq> None \<and> To4 IPv6loopback = None \<and> (0::int) \<le> 0 \<and>
   serverFromFlags state0 flags2 = fatalf state0 ''Listen address must be IPv4'' [] \<and>
   GetIP flags3 ''listen-addr'' = Inr IPv4zero \<and> GetInt flags3 ''port'' = Inr 0 \<and>
   To4 IPv4zero = Some [0, 0, 0, 0] \<and>
   serverFromFlags state0 flags3 = fatalf state0 ''HTTP port must be >0'' []"
  using address_check_before_port_check [OF flags2_reads, of state0]
    address_check_before_port_check [OF flags3_reads, of state0]
  by (simp add: flags2_reads flags3_reads To4_IPv6loopback IPv6loopback_not_nil To4_IPv4zero)

subsection \<open>Fatal errors\<close>

text \<open>
  C3. For every integer \<open>p \<le> 0\<close> that the flag \<^verbatim>\<open>port\<close> holds, \<^verbatim>\<open>serverFromFlags\<close> ends the
  process with exit status 1, whatever the other flags and the state are: it returns
  no server. (Go's \<^verbatim>\<open>int\<close> has 64 bits; the theorem is for every integer.)
\<close>

theorem port_not_positive_is_fatal:
  assumes "flags ''port'' = Some (intValue p)" and "p \<le> 0"
  shows "\<exists>s'. serverFromFlags s flags = Inl (1, s')"
proof (cases "serverFromFlags s flags")
  case (Inl e)
  obtain c s' where e: "e = (c, s')"
    by (cases e)
  with Inl have "c = 1"
    by (auto dest: serverFromFlags_exit_1)
  with Inl e show ?thesis
    by simp
next
  case (Inr v)
  obtain srv s' where "v = (srv, s')"
    by (cases v)
  with Inr have "serverFromFlags s flags = Inr (srv, s')"
    by simp
  then have "0 < p"
    using assms(1) by (elim serverFromFlags_Inr_E) (simp add: GetInt_Inr)
  with assms(2) show ?thesis
    by simp
qed

theorem port_not_positive_is_fatal_witness:
  "setFlag flags0 ''port'' (intValue (- 5)) ''port'' = Some (intValue (- 5)) \<and>
   (- 5 :: int) \<le> 0 \<and>
   exit_status (serverFromFlags state0 (setFlag flags0 ''port'' (intValue (- 5)))) = Some 1 \<and>
   resolvedPort (serverFromFlags state0 (setFlag flags0 ''port'' (intValue (- 5)))) = None"
  using port_not_positive_is_fatal [of "setFlag flags0 ''port'' (intValue (- 5))" "- 5" state0]
  by (auto simp: setFlag_def exit_status_def resolvedPort_def)



text \<open>Which of the two ways it is: the message that is printed.\<close>

lemma non_IPv4_listen_addr_message:
  assumes "GetBool flags ''debug'' = Inr debug"
    and "GetBool flags ''log-timestamps'' = Inr timestamps"
    and "flags ''listen-addr'' = Some (ipValue addr)" and "To4 addr = None"
  shows "serverFromFlags s flags =
     (if addr \<noteq> None \<and> length (the addr) = 16
      then (case GetInt flags ''port'' of
              Inl err \<Rightarrow> fatalf s ''Error reading flag: %s'' [ArgError err]
            | Inr httpPort \<Rightarrow>
          (case GetString flags ''ipxe-bios'' of
              Inl err \<Rightarrow> fatalf s ''Error reading flag: %s'' [ArgError err]
            | Inr ipxeBios \<Rightarrow>
          (case GetString flags ''ipxe-efi32'' of
              Inl err \<Rightarrow> fatalf s ''Error reading flag: %s'' [ArgError err]
            | Inr ipxeEFI32 \<Rightarrow>
          (case GetString flags ''ipxe-efi64'' of
              Inl err \<Rightarrow> fatalf s ''Error reading flag: %s'' [ArgError err]
            | Inr ipxeEFI64 \<Rightarrow> fatalf s ''Listen address must be IPv4'' []))))
      else fatalf s ''Error reading flag: %s'' [ArgError (InvalidIP addr)])"
proof (cases addr)
  case None
  with assms show ?thesis
    by (simp add: serverFromFlags_def GetIP_ipValue reparseIP_def)
next
  case (Some p)
  with assms(4) have "length p \<noteq> 4"
    by (auto simp: To4_def split: if_splits)
  with Some assms show ?thesis
    by (auto simp: serverFromFlags_def GetIP_ipValue reparseIP_def split: sum.splits)
qed


text \<open>
  C8. For every firmware flag that names a file which cannot be read,
  \<^verbatim>\<open>serverFromFlags\<close> ends the process with exit status 1 and returns no server,
  whatever the other flags are.
\<close>

theorem unreadable_firmware_file_is_fatal:
  assumes "flags (ipxeFlag fw) = Some (stringValue path)" and "path \<noteq> ''''"
    and "files s path = Inl err"
  shows "\<exists>s'. serverFromFlags s flags = Inl (1, s')"
proof (cases "serverFromFlags s flags")
  case (Inl e)
  obtain c s' where e: "e = (c, s')"
    by (cases e)
  with Inl have "c = 1"
    by (auto dest: serverFromFlags_exit_1)
  with Inl e show ?thesis
    by simp
next
  case (Inr v)
  obtain srv s' where "v = (srv, s')"
    by (cases v)
  with Inr have "serverFromFlags s flags = Inr (srv, s')"
    by simp
  from serverFromFlags_entry(2) [OF this assms(1,2)] assms(3) show ?thesis
    by auto
qed

theorem unreadable_firmware_file_is_fatal_witness:
  "setFlag flags0 ''ipxe-bios'' (stringValue ''/path/to/missing.bin'') (ipxeFlag FirmwareX86PC)
     = Some (stringValue ''/path/to/missing.bin'') \<and>
   ''/path/to/missing.bin'' \<noteq> '''' \<and>
   files state0 ''/path/to/missing.bin'' = Inl (ErrorText ''no such file or directory'') \<and>
   exit_status
     (serverFromFlags state0 (setFlag flags0 ''ipxe-bios'' (stringValue ''/path/to/missing.bin'')))
     = Some 1"
  using unreadable_firmware_file_is_fatal
    [of "setFlag flags0 ''ipxe-bios'' (stringValue ''/path/to/missing.bin'')" FirmwareX86PC
        "''/path/to/missing.bin''" state0 "ErrorText ''no such file or directory''"]
  by (auto simp: setFlag_def ipxeFlag_def exit_status_def state0_def files0_def)

subsection \<open>The firmware binaries of the server\<close>

lemma state1_server1_map:
  "mapContents state1 (Ipxe server1) = registry0(FirmwareX86PC \<mapsto> 2)"
  by (simp add: state1_def server1_def mapContents_def)

lemma state0'_server0_map: "mapContents state0' (Ipxe server0) = registry0"
  by (simp add: state0'_def server0_def mapContents_def state0_def)

lemma state0_binaries:
  "binaries state0 (Ipxe_var state0) FirmwareX86PC = Some [1, 2, 3]"
  "binaries state0 (Ipxe_var state0) FirmwareEFI64 = Some [9]"
  by (simp_all add: binaries_def state0_registry registry0_def) (simp_all add: state0_def)

lemma state1_binaries:
  "binaries state1 (Ipxe server1) FirmwareX86PC = Some [7, 7]"
  "binaries state1 (Ipxe server1) FirmwareEFI64 = Some [9]"
  by (simp_all add: binaries_def state1_server1_map registry0_def) (simp_all add: state1_def)

text \<open>
  C5. When \<^verbatim>\<open>serverFromFlags\<close> returns a server and the flag of a firmware type names a
  file, the file was read and the binary of that type in the server's map is the whole
  contents of the file, whatever the registry held for the type: the registered
  binary is replaced, not merged.
\<close>

theorem flag_binary_overrides_registered:
  assumes "serverFromFlags s flags = Inr (srv, s')"
    and "flags (ipxeFlag fw) = Some (stringValue path)" and "path \<noteq> ''''"
  shows "\<exists>bs. files s path = Inr bs \<and> binaries s' (Ipxe srv) fw = Some bs"
  using serverFromFlags_entry(2) [OF assms] by (auto simp: binaries_def)

theorem flag_binary_overrides_registered_witness:
  "serverFromFlags state0 flags1 = Inr (server1, state1) \<and>
   flags1 (ipxeFlag FirmwareX86PC) = Some (stringValue ''/srv/ipxe.pxe'') \<and>
   ''/srv/ipxe.pxe'' \<noteq> '''' \<and>
   binaries state0 (Ipxe_var state0) FirmwareX86PC = Some [1, 2, 3] \<and>
   files state0 ''/srv/ipxe.pxe'' = Inr [7, 7] \<and>
   binaries state1 (Ipxe server1) FirmwareX86PC = Some [7, 7]"
  using flag_binary_overrides_registered
    [OF serverFromFlags_state0_flags1, of FirmwareX86PC "''/srv/ipxe.pxe''"]
  by (simp add: serverFromFlags_state0_flags1 flags1_values ipxeFlag_def state0_binaries
      state1_binaries)

text \<open>
  C6. When \<^verbatim>\<open>serverFromFlags\<close> returns a server, the flag of a firmware type is empty
  and the registry holds a binary for the type, the binary of that type in the server's
  map is that binary, byte for byte.
\<close>

theorem unflagged_binary_is_registered:
  assumes "serverFromFlags s flags = Inr (srv, s')"
    and "flags (ipxeFlag fw) = Some (stringValue '''')"
    and "binaries s (Ipxe_var s) fw = Some bs"
  shows "binaries s' (Ipxe srv) fw = Some bs"
proof -
  from assms(3) obtain sl where sl: "mapContents s (Ipxe_var s) fw = Some sl"
    "sl < length (arrays s)" "arrays s ! sl = bs"
    by (auto simp: binaries_def split: option.splits if_splits)
  have entry: "mapContents s' (Ipxe srv) fw = Some sl"
    using serverFromFlags_entry(1) [OF assms(1,2)] sl(1) by simp
  from serverFromFlags_store(6) [OF assms(1)] obtain new where "arrays s' = arrays s @ new"
    by auto
  with sl entry show ?thesis
    by (simp add: binaries_def nth_append)
qed

theorem unflagged_binary_is_registered_witness:
  "serverFromFlags state0 flags1 = Inr (server1, state1) \<and>
   flags1 (ipxeFlag FirmwareEFI64) = Some (stringValue '''') \<and>
   binaries state0 (Ipxe_var state0) FirmwareEFI64 = Some [9] \<and>
   binaries state1 (Ipxe server1) FirmwareEFI64 = Some [9]"
  using unflagged_binary_is_registered
    [OF serverFromFlags_state0_flags1, of FirmwareEFI64 "[9]"]
  by (simp add: serverFromFlags_state0_flags1 flags1_values ipxeFlag_def state0_binaries)

subsection \<open>The server's map and the registry\<close>

text \<open>
  Stores through the package variable go to the map it refers to: every other map of
  the store, and every array, stays as it was.
\<close>

lemma IpxeStores_frame:
  assumes "IpxeStores s kvs = Inr t" and "m \<noteq> Ipxe_var s"
  shows "mapContents t m = mapContents s m" and "Ipxe_var t = Ipxe_var s"
    and "arrays t = arrays s"
  using assms
proof (induction kvs arbitrary: s)
  case Nil
  {
    case 1 then show ?case by simp
  next
    case 2 then show ?case by simp
  next
    case 3 then show ?case by simp
  }
next
  case (Cons kv kvs)
  {
    case 1
    then obtain s1 where s1: "IpxeStore s kv = Inr s1" and rest: "IpxeStores s1 kvs = Inr t"
      by (auto split: sum.splits)
    from s1 obtain r where r: "Ipxe_var s = Some r" "r < length (maps s)"
      "s1 = s\<lparr>maps := (maps s)[r := (maps s ! r)(fst kv \<mapsto> snd kv)]\<rparr>"
      by (auto simp: IpxeStore_def dest: mapStore_Inr_D)
    with 1(2) have "mapContents s1 m = mapContents s m" and "m \<noteq> Ipxe_var s1"
      by (auto simp: mapContents_def split: option.splits)
    with Cons.IH(1) [OF rest] show ?case
      by simp
  next
    case 2
    then obtain s1 where s1: "IpxeStore s kv = Inr s1" and rest: "IpxeStores s1 kvs = Inr t"
      by (auto split: sum.splits)
    from s1 have v: "Ipxe_var s1 = Ipxe_var s"
      by (auto simp: IpxeStore_def dest: mapStore_Inr_D)
    with 2(2) Cons.IH(2) [OF rest] show ?case
      by simp
  next
    case 3
    then obtain s1 where s1: "IpxeStore s kv = Inr s1" and rest: "IpxeStores s1 kvs = Inr t"
      by (auto split: sum.splits)
    from s1 have v: "Ipxe_var s1 = Ipxe_var s" "arrays s1 = arrays s"
      by (auto simp: IpxeStore_def dest: mapStore_Inr_D)
    with 3(2) Cons.IH(3) [OF rest] show ?case
      by simp
  }
qed

text \<open>A change of a byte in place leaves every map with the slices it had.\<close>

lemma sliceStore_maps:
  "sliceStore s sl i b = Inr t \<Longrightarrow>
   mapContents t m = mapContents s m \<and> Ipxe_var t = Ipxe_var s \<and>
   arrays t = (arrays s)[sl := (arrays s ! sl)[i := b]] \<and> sl < length (arrays s)"
  by (auto simp: sliceStore_def mapContents_def split: if_splits option.splits)

text \<open>
  C10, as the specification has it (no change of an entry of the registry after the
  construction shows in the server's map), does not hold: the loop copies the slices,
  not their bytes. After \<^verbatim>\<open>serverFromFlags\<close> has returned, the embedding program
  changes the first byte of the binary registered for BIOS in place, and the binary
  that the server's map holds for BIOS has changed with it.
\<close>

theorem registry_bytes_shared_counterexample:
  "serverFromFlags state0 flags0 = Inr (server0, state0') \<and>
   Ipxe server0 \<noteq> Ipxe_var state0' \<and>
   mapContents state0' (Ipxe_var state0') FirmwareX86PC = Some 0 \<and>
   binaries state0' (Ipxe server0) FirmwareX86PC = Some [1, 2, 3] \<and>
   sliceStore state0' 0 0 0xff = Inr state0_changed \<and>
   binaries state0_changed (Ipxe_var state0_changed) FirmwareX86PC = Some [0xff, 2, 3] \<and>
   binaries state0_changed (Ipxe server0) FirmwareX86PC = Some [0xff, 2, 3]"
proof -
  have "Ipxe server0 \<noteq> Ipxe_var state0'"
    by (simp add: server0_def state0'_def state0_def)
  moreover have "mapContents state0' (Ipxe_var state0') FirmwareX86PC = Some 0"
    by (simp add: mapContents_def state0'_def state0_def registry0_def)
  moreover have "binaries state0' (Ipxe server0) FirmwareX86PC = Some [1, 2, 3]"
    by (simp add: binaries_def state0'_server0_map registry0_def)
       (simp add: state0'_def state0_def)
  moreover have "sliceStore state0' 0 0 0xff = Inr state0_changed"
    by (simp add: sliceStore_def state0_changed_def state0'_def state0_def)
  moreover have
    "binaries state0_changed (Ipxe_var state0_changed) FirmwareX86PC = Some [0xff, 2, 3]"
    "binaries state0_changed (Ipxe server0) FirmwareX86PC = Some [0xff, 2, 3]"
    by (simp_all add: binaries_def mapContents_def state0_changed_def state0'_def state0_def
        server0_def registry0_def)
  ultimately show ?thesis
    using serverFromFlags_state0_flags0 by (intro conjI)
qed

text \<open>
  C10, amended. The map of a returned server is a new map object, not the one the
  package variable refers to (the variable being nil or a map of the store, as in every
  Go program), and the construction leaves the registry as it was. For every firmware
  type whose flag is empty the new map holds the registry's own entry, the same slice:
  the copy is of the entries, not of their bytes. Whatever entries are stored through
  the package variable afterwards (\<^verbatim>\<open>Ipxe[k] = v\<close>), the server's map stays as it was;
  a byte of a slice changed in place afterwards leaves the server's entries the same
  slices, and is changed in the binary that the server's map holds through that slice.
\<close>

theorem server_map_is_shallow_copy:
  assumes "serverFromFlags s flags = Inr (srv, s')" and "validRef s (Ipxe_var s)"
  shows "Ipxe srv = Some (length (maps s)) \<and> Ipxe srv \<noteq> Ipxe_var s' \<and>
         mapContents s' (Ipxe_var s') = mapContents s (Ipxe_var s) \<and>
         (\<forall>fw. flags (ipxeFlag fw) = Some (stringValue '''') \<longrightarrow>
            mapContents s' (Ipxe srv) fw = mapContents s (Ipxe_var s) fw) \<and>
         (\<forall>kvs t. IpxeStores s' kvs = Inr t \<longrightarrow>
            mapContents t (Ipxe srv) = mapContents s' (Ipxe srv) \<and>
            binaries t (Ipxe srv) = binaries s' (Ipxe srv)) \<and>
         (\<forall>sl i b t fw. sliceStore s' sl i b = Inr t \<longrightarrow>
            mapContents t (Ipxe srv) = mapContents s' (Ipxe srv) \<and>
            (mapContents s' (Ipxe srv) fw = Some sl \<longrightarrow>
               binaries t (Ipxe srv) fw = Some ((arrays s' ! sl)[i := b])))"
proof -
  note st = serverFromFlags_store [OF assms(1)]
  have new: "Ipxe srv = Some (length (maps s))"
    by (rule st(1))
  have fresh: "Ipxe srv \<noteq> Ipxe_var s'"
    using assms(2) st(1,3) by (auto simp: validRef_def split: option.splits)
  have registry: "mapContents s' (Ipxe_var s') = mapContents s (Ipxe_var s)"
  proof (cases "Ipxe_var s")
    case None
    with st(3) show ?thesis
      by (simp add: mapContents_def)
  next
    case (Some r)
    with assms(2) have "r < length (maps s)"
      by (simp add: validRef_def)
    from serverFromFlags_frame [OF assms(1) this] Some st(3) show ?thesis
      by simp
  qed
  have copy: "mapContents s' (Ipxe srv) fw = mapContents s (Ipxe_var s) fw"
    if "flags (ipxeFlag fw) = Some (stringValue '''')" for fw
    using serverFromFlags_entry(1) [OF assms(1) that] by simp
  have stores: "mapContents t (Ipxe srv) = mapContents s' (Ipxe srv) \<and>
      binaries t (Ipxe srv) = binaries s' (Ipxe srv)"
    if "IpxeStores s' kvs = Inr t" for kvs t
  proof -
    note fr = IpxeStores_frame(1,3) [OF that fresh]
    have "binaries t (Ipxe srv) = binaries s' (Ipxe srv)"
      by (rule ext) (simp add: binaries_def fr split: option.splits)
    with fr(1) show ?thesis
      by simp
  qed
  have inplace: "mapContents t (Ipxe srv) = mapContents s' (Ipxe srv) \<and>
      (mapContents s' (Ipxe srv) fw = Some sl \<longrightarrow>
         binaries t (Ipxe srv) fw = Some ((arrays s' ! sl)[i := b]))"
    if "sliceStore s' sl i b = Inr t" for sl i b t fw
    using sliceStore_maps [OF that] by (auto simp: binaries_def)
  from new fresh registry copy stores inplace show ?thesis
    by blast
qed

lemma serverFromFlags_state_nil: "serverFromFlags state_nil flags0 = Inr (server0, state_nil')"
  by (simp add: serverFromFlags_def flags0_reads To4_IPv4zero IP_String_IPv4zero
      IPv4zero_not_nil newMap_def mapContents_newMap copy_registry Let_def)
     (simp add: storeFile_def mapContents_def server0_def state_nil'_def state_nil_def
        state0_def Let_def IPv4zero_Some IP_String_IPv4zero)

theorem server_map_is_shallow_copy_witness:
  "serverFromFlags state0 flags0 = Inr (server0, state0') \<and>
   validRef state0 (Ipxe_var state0) \<and>
   Ipxe server0 = Some 1 \<and> Ipxe_var state0' = Some 0 \<and>
   mapContents state0 (Ipxe_var state0) = registry0 \<and>
   mapContents state0' (Ipxe server0) = registry0 \<and>
   IpxeStores state0' [(FirmwareX86PC, 1), (FirmwareEFI32, 0)] = Inr state0_stored \<and>
   mapContents state0_stored (Ipxe_var state0_stored)
     = registry0(FirmwareX86PC \<mapsto> 1, FirmwareEFI32 \<mapsto> 0) \<and>
   mapContents state0_stored (Ipxe server0) = registry0 \<and>
   sliceStore state0' 0 0 0xff = Inr state0_changed \<and>
   binaries state0_changed (Ipxe server0) FirmwareX86PC = Some [0xff, 2, 3] \<and>
   serverFromFlags state_nil flags0 = Inr (server0, state_nil') \<and>
   validRef state_nil (Ipxe_var state_nil) \<and> Ipxe_var state_nil' = None \<and>
   mapContents state_nil' (Ipxe server0) = Map.empty"
proof -
  have valid: "validRef state0 (Ipxe_var state0)" "validRef state_nil (Ipxe_var state_nil)"
    by (simp_all add: validRef_def state0_def state_nil_def)
  have stored: "IpxeStores state0' [(FirmwareX86PC, 1), (FirmwareEFI32, 0)] = Inr state0_stored"
    by (simp add: IpxeStore_def mapStore_def state0'_def state0_def state0_stored_def)
  have changed: "sliceStore state0' 0 0 0xff = Inr state0_changed"
    by (simp add: sliceStore_def state0_changed_def state0'_def state0_def)
  have entry: "mapContents state0' (Ipxe server0) FirmwareX86PC = Some 0"
    by (simp add: state0'_server0_map registry0_def)
  have arr: "(arrays state0' ! 0)[0 := 0xff] = [0xff, 2, 3]"
    by (simp add: state0'_def state0_def)
  note thm0 = server_map_is_shallow_copy [OF serverFromFlags_state0_flags0 valid(1)]
  note thm1 = server_map_is_shallow_copy [OF serverFromFlags_state_nil valid(2)]
  have "Ipxe server0 = Some 1" "Ipxe_var state0' = Some 0"
    by (simp_all add: server0_def state0'_def state0_def)
  moreover have "mapContents state0_stored (Ipxe server0) = registry0"
  proof -
    have "mapContents state0_stored (Ipxe server0) = mapContents state0' (Ipxe server0)"
      using thm0 stored by blast
    then show ?thesis
      by (simp only: state0'_server0_map)
  qed
  moreover have "mapContents state0_stored (Ipxe_var state0_stored)
      = registry0(FirmwareX86PC \<mapsto> 1, FirmwareEFI32 \<mapsto> 0)"
    by (simp add: mapContents_def state0_stored_def state0'_def state0_def)
  moreover have "binaries state0_changed (Ipxe server0) FirmwareX86PC = Some [0xff, 2, 3]"
  proof -
    have "binaries state0_changed (Ipxe server0) FirmwareX86PC
        = Some ((arrays state0' ! 0)[0 := 0xff])"
      using thm0 changed entry by blast
    then show ?thesis
      by (simp only: arr)
  qed
  moreover have "Ipxe_var state_nil' = None"
    by (simp add: state_nil'_def state_nil_def)
  moreover have "mapContents state_nil' (Ipxe server0) = Map.empty"
  proof -
    have "mapContents state_nil' (Ipxe_var state_nil') = mapContents state_nil (Ipxe_var state_nil)"
      using thm1 by blast
    then show ?thesis
      by (simp add: state_nil'_def state_nil_def server0_def mapContents_def state0_def)
  qed
  ultimately show ?thesis
    using serverFromFlags_state0_flags0 valid state0_registry state0'_server0_map stored
      changed serverFromFlags_state_nil
    by (intro conjI)
qed

subsection \<open>The loggers of the server\<close>



subsection \<open>Legacy command line or modern commands\<close>

text \<open>
  When \<^verbatim>\<open>v1compatCLI\<close> ends the process itself, \<^verbatim>\<open>CLI\<close> ends there; when it returns
  false, the outcome of \<^verbatim>\<open>CLI\<close> is an exit: the command's own, \<^verbatim>\<open>-1\<close> for an error that
  \<^verbatim>\<open>rootCmd.Execute\<close> returns, \<^verbatim>\<open>0\<close> otherwise.
\<close>

lemma CLI_legacy_exits:
  "v1compatCLI s = Inl e \<Longrightarrow> CLI v1compatCLI rootCmd_Execute s = Inl e"
  by (simp add: CLI_def)

lemma CLI_modern:
  "v1compatCLI s = Inr (False, s1) \<Longrightarrow>
   CLI v1compatCLI rootCmd_Execute s =
     (case rootCmd_Execute s1 of
        Inl e \<Rightarrow> Inl e
      | Inr (Some err, s2) \<Rightarrow>
          Inl (- 1, s2\<lparr>stdout := stdout s2 @ [(''%v'' @ [CHR 0x0A], [ArgError err])]\<rparr>)
      | Inr (None, s2) \<Rightarrow> Inl (0, s2))"
  by (simp add: CLI_def)

lemma CLI_modern_never_returns:
  "v1compatCLI s = Inr (False, s1) \<Longrightarrow> CLI v1compatCLI rootCmd_Execute s \<noteq> Inr s'"
  by (simp add: CLI_def split: sum.splits option.splits prod.splits)

lemma CLI_Execute_error:
  "v1compatCLI s = Inr (False, s1) \<Longrightarrow> rootCmd_Execute s1 = Inr (Some err, s2) \<Longrightarrow>
   exit_status (CLI v1compatCLI rootCmd_Execute s) = Some (- 1)"
  by (simp add: CLI_def exit_status_def)

text \<open>
  C7. When \<^verbatim>\<open>v1compatCLI\<close> has handled the invocation (it returns true), \<^verbatim>\<open>CLI\<close> returns
  at once, in the state that \<^verbatim>\<open>v1compatCLI\<close> left: the outcome is the same for every
  \<^verbatim>\<open>rootCmd.Execute\<close>, which is not run. With the lemmas above: the commands run only
  when \<^verbatim>\<open>v1compatCLI\<close> has returned false.
\<close>

theorem legacy_handled_skips_router:
  assumes "v1compatCLI s = Inr (True, s1)"
  shows "CLI v1compatCLI rootCmd_Execute s = Inr s1"
  using assms by (simp add: CLI_def)

theorem legacy_handled_skips_router_witness:
  "(\<lambda>s. Inr (True, s\<lparr>stdout := stdout s @ [(''legacy'', [])]\<rparr>)) state0
     = Inr (True, state0\<lparr>stdout := [(''legacy'', [])]\<rparr>) \<and>
   CLI (\<lambda>s. Inr (True, s\<lparr>stdout := stdout s @ [(''legacy'', [])]\<rparr>))
       (\<lambda>s. Inl (7, s\<lparr>stdout := stdout s @ [(''modern'', [])]\<rparr>)) state0
     = Inr (state0\<lparr>stdout := [(''legacy'', [])]\<rparr>)"
  using legacy_handled_skips_router
    [of "\<lambda>s. Inr (True, s\<lparr>stdout := stdout s @ [(''legacy'', [])]\<rparr>)" state0
        "state0\<lparr>stdout := [(''legacy'', [])]\<rparr>"
        "\<lambda>s. Inl (7, s\<lparr>stdout := stdout s @ [(''modern'', [])]\<rparr>)"]
  by (simp add: state0_def)

end
